theory Spec2Isabelle
  imports Main "HOL-Library.AList" "HOL-Library.Char_ord" "HOL-Library.List_Lexorder"
begin

section \<open>Data model\<close>

text \<open>
  The record service of \<^verbatim>\<open>src/services/qrService.js\<close> (class \<open>QRService\<close>) together
  with \<^verbatim>\<open>src/config/sqlite.js\<close>, \<^verbatim>\<open>src/config/database.js\<close>,
  \<^verbatim>\<open>src/config/redis.js\<close> and the generate handler of \<^verbatim>\<open>src/routes/qrRoutes.js\<close>.

  Time is milliseconds since the epoch (\<open>Date.now()\<close>); every operation takes the
  current instant as its first argument. Every \<open>throw\<close> of the source is a value
  \<open>Inl e\<close> of the type \<open>error + 'a\<close>.
\<close>

datatype error =
    Database_not_initialized
  | Constraint_failed
  | Redis_error
  | Render_failed
  | Database_storage_failed
  | Failed_to_generate_QR_code
  | QR_code_not_found_or_expired
  | QR_code_not_found_or_access_denied
  | Validation_failed

text \<open>
  A row of the table \<open>qr_codes\<close>, and equally the JavaScript object kept in the
  memory store or in the cache. The objects that \<open>generateQR\<close> puts into the memory
  store have no \<open>user_id\<close>, \<open>metadata\<close> and \<open>is_active\<close> property: a missing
  property (or SQL \<open>NULL\<close>) is \<open>None\<close>.
\<close>

record qr_record =
  qr_id :: string
  qr_data :: string
  qr_image_url :: string
  created_at :: int
  expires_at :: "int option"
  access_count :: nat
  user_id :: "string option"
  metadata :: "string option"
  is_active :: "bool option"

text \<open>The object returned to the caller by \<open>generateQR\<close> and \<open>getQR\<close>.\<close>

record qr_public =
  pub_id :: string
  pub_data :: string
  pub_qrImageUrl :: string
  pub_createdAt :: int
  pub_expiresAt :: "int option"
  pub_accessCount :: nat

definition public_view :: "qr_record \<Rightarrow> qr_public" where
  "public_view r =
     \<lparr>pub_id = qr_id r, pub_data = qr_data r, pub_qrImageUrl = qr_image_url r,
      pub_createdAt = created_at r, pub_expiresAt = expires_at r,
      pub_accessCount = access_count r\<rparr>"

record scan_log =
  scan_qr_id :: string
  scanner_ip :: "string option"
  scanner_user_agent :: "string option"
  scanner_location :: "string option"
  scan_metadata :: string

record scanner_info =
  info_ip :: "string option"
  info_userAgent :: "string option"
  info_location :: "string option"
  info_metadata :: "string option"

record sqlite_db =
  qr_codes :: "qr_record list"
  qr_scan_logs :: "scan_log list"

text \<open>
  The redis client of \<^verbatim>\<open>redis.js\<close>: \<open>client\<close> may be undefined (\<open>None\<close>), closed, or
  open with commands that reject (\<open>commands_reject\<close>). An entry holds the value and the
  instant at which its time to live runs out.
\<close>

record redis_client =
  isOpen :: bool
  commands_reject :: bool
  entries :: "(string \<times> qr_record \<times> int) list"

text \<open>
  The state the service works on: the SQLite handle \<open>db\<close> (\<open>None\<close>: not initialised, every
  query rejects), the PostgreSQL pool (\<open>None\<close>: every query throws), the \<open>Map\<close>
  \<open>memoryStore\<close> in insertion order, the redis client and the two environment variables
  the service reads.
\<close>

record service_state =
  sqlite :: "sqlite_db option"
  pg :: "qr_record list option"
  memoryStore :: "(string \<times> qr_record) list"
  redis :: "redis_client option"
  env_QR_CODE_EXPIRY_HOURS :: "string option"
  env_NODE_ENV :: "string option"

section \<open>Timestamps as SQLite sees them\<close>

text \<open>
  \<open>generateQR\<close> binds \<open>expiresAt.toISOString()\<close> to the column \<open>expires_at\<close> of the
  SQLite table, and the SQLite statements compare that column with \<open>datetime('now')\<close>.
  Both are texts, \<^verbatim>\<open>YYYY-MM-DDTHH:MM:SS.sssZ\<close> and \<^verbatim>\<open>YYYY-MM-DD HH:MM:SS\<close>, and SQLite
  compares texts byte by byte. The two renderings are written out here, so that the
  comparison the statement makes is the comparison of the model. (\<open>civil_from_days\<close>
  turns a day count into year, month and day of the proleptic Gregorian calendar; the
  current instant is taken to lie in the years 0 to 9999, the range of \<open>datetime\<close>.)
\<close>

definition digit_char :: "int \<Rightarrow> char" where
  "digit_char d = ''0123456789'' ! nat (d mod 10)"

definition pad2 :: "int \<Rightarrow> string" where
  "pad2 n = [digit_char (n div 10), digit_char n]"

definition pad3 :: "int \<Rightarrow> string" where
  "pad3 n = [digit_char (n div 100), digit_char (n div 10), digit_char n]"

definition pad4 :: "int \<Rightarrow> string" where
  "pad4 n = digit_char (n div 1000) # pad3 n"

definition pad6 :: "int \<Rightarrow> string" where
  "pad6 n = digit_char (n div 100000) # digit_char (n div 10000) # pad4 n"

definition civil_from_days :: "int \<Rightarrow> int \<times> int \<times> int" where
  "civil_from_days z0 =
     (let z = z0 + 719468;
          era = z div 146097;
          doe = z mod 146097;
          yoe = (doe - doe div 1460 + doe div 36524 - doe div 146096) div 365;
          doy = doe - (365 * yoe + yoe div 4 - yoe div 100);
          mp = (5 * doy + 2) div 153;
          d = doy - (153 * mp + 2) div 5 + 1;
          m = (if mp < 10 then mp + 3 else mp - 9);
          y = yoe + era * 400 + (if m \<le> 2 then 1 else 0)
      in (y, m, d))"

definition year_text :: "int \<Rightarrow> string" where
  "year_text y =
     (if 0 \<le> y \<and> y \<le> 9999 then pad4 y
      else (if y < 0 then ''-'' else ''+'') @ pad6 \<bar>y\<bar>)"

definition date_text :: "int \<Rightarrow> string" where
  "date_text t =
     (case civil_from_days (t div 86400000) of
        (y, m, d) \<Rightarrow> year_text y @ ''-'' @ pad2 m @ ''-'' @ pad2 d)"

definition clock_text :: "int \<Rightarrow> string" where
  "clock_text t =
     (let r = t mod 86400000
      in pad2 (r div 3600000) @ '':'' @ pad2 (r div 60000 mod 60) @ '':''
         @ pad2 (r div 1000 mod 60))"

definition toISOString :: "int \<Rightarrow> string" where
  "toISOString t =
     date_text t @ ''T'' @ clock_text t @ ''.'' @ pad3 (t mod 1000) @ ''Z''"

definition sqlite_datetime :: "int \<Rightarrow> string" where
  "sqlite_datetime t = date_text t @ '' '' @ clock_text t"

text \<open>\<^verbatim>\<open>expires_at > datetime('now')\<close> and \<^verbatim>\<open>expires_at < datetime('now')\<close> in SQLite.\<close>

definition sqlite_gt_now :: "int \<Rightarrow> int \<Rightarrow> bool" where
  "sqlite_gt_now e now = (sqlite_datetime now < toISOString e)"

definition sqlite_lt_now :: "int \<Rightarrow> int \<Rightarrow> bool" where
  "sqlite_lt_now e now = (toISOString e < sqlite_datetime now)"

section \<open>The statements sent to the two databases\<close>

text \<open>
  JavaScript truthiness of an optional string: \<open>undefined\<close>, \<open>null\<close> and the empty string
  are falsy (\<open>userId ? ... : ...\<close>, \<open>options.userId || null\<close>).
\<close>

definition truthy :: "string option \<Rightarrow> bool" where
  "truthy u = (case u of None \<Rightarrow> False | Some t \<Rightarrow> t \<noteq> [])"

text \<open>
  \<^verbatim>\<open>WHERE id = ? AND is_active = 1 AND (expires_at IS NULL OR expires_at > datetime('now'))\<close>
  and its PostgreSQL sibling with \<^verbatim>\<open>expires_at > NOW()\<close> on a \<open>TIMESTAMP\<close> column.
\<close>

definition sqlite_visible :: "int \<Rightarrow> qr_record \<Rightarrow> bool" where
  "sqlite_visible now r =
     (is_active r = Some True \<and> (case expires_at r of None \<Rightarrow> True | Some e \<Rightarrow> sqlite_gt_now e now))"

definition pg_visible :: "int \<Rightarrow> qr_record \<Rightarrow> bool" where
  "pg_visible now r =
     (is_active r = Some True \<and> (case expires_at r of None \<Rightarrow> True | Some e \<Rightarrow> now < e))"

definition sqlite_select_visible :: "int \<Rightarrow> string \<Rightarrow> qr_record list \<Rightarrow> qr_record list" where
  "sqlite_select_visible now i rows = filter (\<lambda>r. qr_id r = i \<and> sqlite_visible now r) rows"

definition pg_select_visible :: "int \<Rightarrow> string \<Rightarrow> qr_record list \<Rightarrow> qr_record list" where
  "pg_select_visible now i rows = filter (\<lambda>r. qr_id r = i \<and> pg_visible now r) rows"

text \<open>\<^verbatim>\<open>INSERT INTO qr_codes ...\<close>: \<open>id\<close> is the primary key.\<close>

definition insert_row :: "qr_record \<Rightarrow> qr_record list \<Rightarrow> error + qr_record list" where
  "insert_row r rows =
     (if qr_id r \<in> set (map qr_id rows) then Inl Constraint_failed else Inr (rows @ [r]))"

text \<open>
  \<^verbatim>\<open>UPDATE qr_codes SET is_active = 0 WHERE id = ? [AND user_id = ?]\<close>: the second
  condition is there when \<open>userId\<close> is truthy. \<open>rowCount\<close> is the number of rows the
  \<open>WHERE\<close> clause matches.
\<close>

definition retire_matches :: "string \<Rightarrow> string option \<Rightarrow> qr_record \<Rightarrow> bool" where
  "retire_matches i userId r =
     (qr_id r = i \<and> (if truthy userId then user_id r = userId else True))"

definition update_retire ::
  "string \<Rightarrow> string option \<Rightarrow> qr_record list \<Rightarrow> nat \<times> qr_record list" where
  "update_retire i userId rows =
     (length (filter (retire_matches i userId) rows),
      map (\<lambda>r. if retire_matches i userId r then r\<lparr>is_active := Some False\<rparr> else r) rows)"

text \<open>\<^verbatim>\<open>UPDATE qr_codes SET access_count = access_count + 1 WHERE id = ?\<close>\<close>

definition update_access_count :: "string \<Rightarrow> qr_record list \<Rightarrow> qr_record list" where
  "update_access_count i rows =
     map (\<lambda>r. if qr_id r = i then r\<lparr>access_count := access_count r + 1\<rparr> else r) rows"

text \<open>
  \<^verbatim>\<open>DELETE FROM qr_codes WHERE expires_at < datetime('now')\<close> and
  \<^verbatim>\<open>DELETE FROM qr_codes WHERE expires_at < NOW()\<close>; a \<open>NULL\<close> never compares.
\<close>

definition sqlite_expired :: "int \<Rightarrow> qr_record \<Rightarrow> bool" where
  "sqlite_expired now r = (case expires_at r of None \<Rightarrow> False | Some e \<Rightarrow> sqlite_lt_now e now)"

definition pg_expired :: "int \<Rightarrow> qr_record \<Rightarrow> bool" where
  "pg_expired now r = (case expires_at r of None \<Rightarrow> False | Some e \<Rightarrow> e < now)"

definition delete_where ::
  "(qr_record \<Rightarrow> bool) \<Rightarrow> qr_record list \<Rightarrow> nat \<times> qr_record list" where
  "delete_where p rows = (length (filter p rows), filter (\<lambda>r. \<not> p r) rows)"

text \<open>
  \<open>query\<close> of \<^verbatim>\<open>sqlite.js\<close> rejects when \<open>db\<close> is not there; \<open>query\<close> of
  \<^verbatim>\<open>database.js\<close> throws when \<open>pool\<close> is not there.
\<close>

definition sqliteQuery_select_visible ::
  "int \<Rightarrow> string \<Rightarrow> service_state \<Rightarrow> error + qr_record list" where
  "sqliteQuery_select_visible now i s =
     (case sqlite s of
        None \<Rightarrow> Inl Database_not_initialized
      | Some db \<Rightarrow> Inr (sqlite_select_visible now i (qr_codes db)))"

definition pgQuery_select_visible ::
  "int \<Rightarrow> string \<Rightarrow> service_state \<Rightarrow> error + qr_record list" where
  "pgQuery_select_visible now i s =
     (case pg s of
        None \<Rightarrow> Inl Database_not_initialized
      | Some rows \<Rightarrow> Inr (pg_select_visible now i rows))"

definition sqliteQuery_insert :: "qr_record \<Rightarrow> service_state \<Rightarrow> error + service_state" where
  "sqliteQuery_insert r s =
     (case sqlite s of
        None \<Rightarrow> Inl Database_not_initialized
      | Some db \<Rightarrow>
          (case insert_row r (qr_codes db) of
             Inl e \<Rightarrow> Inl e
           | Inr rows \<Rightarrow> Inr (s\<lparr>sqlite := Some (db\<lparr>qr_codes := rows\<rparr>)\<rparr>)))"

definition pgQuery_insert :: "qr_record \<Rightarrow> service_state \<Rightarrow> error + service_state" where
  "pgQuery_insert r s =
     (case pg s of
        None \<Rightarrow> Inl Database_not_initialized
      | Some rows \<Rightarrow>
          (case insert_row r rows of
             Inl e \<Rightarrow> Inl e
           | Inr rows' \<Rightarrow> Inr (s\<lparr>pg := Some rows'\<rparr>)))"

definition sqliteQuery_retire ::
  "string \<Rightarrow> string option \<Rightarrow> service_state \<Rightarrow> error + nat \<times> service_state" where
  "sqliteQuery_retire i userId s =
     (case sqlite s of
        None \<Rightarrow> Inl Database_not_initialized
      | Some db \<Rightarrow>
          (case update_retire i userId (qr_codes db) of
             (rowCount, rows) \<Rightarrow> Inr (rowCount, s\<lparr>sqlite := Some (db\<lparr>qr_codes := rows\<rparr>)\<rparr>)))"

definition pgQuery_retire ::
  "string \<Rightarrow> string option \<Rightarrow> service_state \<Rightarrow> error + nat \<times> service_state" where
  "pgQuery_retire i userId s =
     (case pg s of
        None \<Rightarrow> Inl Database_not_initialized
      | Some rows \<Rightarrow>
          (case update_retire i userId rows of
             (rowCount, rows') \<Rightarrow> Inr (rowCount, s\<lparr>pg := Some rows'\<rparr>)))"

definition sqliteQuery_increment :: "string \<Rightarrow> service_state \<Rightarrow> error + service_state" where
  "sqliteQuery_increment i s =
     (case sqlite s of
        None \<Rightarrow> Inl Database_not_initialized
      | Some db \<Rightarrow>
          Inr (s\<lparr>sqlite := Some (db\<lparr>qr_codes := update_access_count i (qr_codes db)\<rparr>)\<rparr>))"

definition pgQuery_increment :: "string \<Rightarrow> service_state \<Rightarrow> error + service_state" where
  "pgQuery_increment i s =
     (case pg s of
        None \<Rightarrow> Inl Database_not_initialized
      | Some rows \<Rightarrow> Inr (s\<lparr>pg := Some (update_access_count i rows)\<rparr>))"

definition sqliteQuery_delete_expired ::
  "int \<Rightarrow> service_state \<Rightarrow> error + nat \<times> service_state" where
  "sqliteQuery_delete_expired now s =
     (case sqlite s of
        None \<Rightarrow> Inl Database_not_initialized
      | Some db \<Rightarrow>
          (case delete_where (sqlite_expired now) (qr_codes db) of
             (rowCount, rows) \<Rightarrow> Inr (rowCount, s\<lparr>sqlite := Some (db\<lparr>qr_codes := rows\<rparr>)\<rparr>)))"

definition pgQuery_delete_expired ::
  "int \<Rightarrow> service_state \<Rightarrow> error + nat \<times> service_state" where
  "pgQuery_delete_expired now s =
     (case pg s of
        None \<Rightarrow> Inl Database_not_initialized
      | Some rows \<Rightarrow>
          (case delete_where (pg_expired now) rows of
             (rowCount, rows') \<Rightarrow> Inr (rowCount, s\<lparr>pg := Some rows'\<rparr>)))"

section \<open>The cache (\<^verbatim>\<open>redis.js\<close>)\<close>

text \<open>
  \<open>SETEX\<close> refuses a time to live that is not positive; like every rejected command it
  ends in the \<open>catch\<close> of the wrapper.
\<close>

definition redis_setEx ::
  "int \<Rightarrow> string \<Rightarrow> int \<Rightarrow> qr_record \<Rightarrow> redis_client \<Rightarrow> error + redis_client" where
  "redis_setEx now key expireInSeconds v c =
     (if commands_reject c \<or> expireInSeconds \<le> 0 then Inl Redis_error
      else Inr (c\<lparr>entries := AList.update key (v, now + expireInSeconds * 1000) (entries c)\<rparr>))"

definition redis_get :: "int \<Rightarrow> string \<Rightarrow> redis_client \<Rightarrow> error + qr_record option" where
  "redis_get now key c =
     (if commands_reject c then Inl Redis_error
      else Inr (case map_of (entries c) key of
                  None \<Rightarrow> None
                | Some (v, deadline) \<Rightarrow> if now < deadline then Some v else None))"

definition redis_del :: "string \<Rightarrow> redis_client \<Rightarrow> error + redis_client" where
  "redis_del key c =
     (if commands_reject c then Inl Redis_error
      else Inr (c\<lparr>entries := AList.delete key (entries c)\<rparr>))"

definition setCache ::
  "int \<Rightarrow> string \<Rightarrow> qr_record \<Rightarrow> int \<Rightarrow> service_state \<Rightarrow> (error + bool) \<times> service_state" where
  "setCache now key v expireInSeconds s =
     (case redis s of
        None \<Rightarrow> (Inr False, s)
      | Some c \<Rightarrow>
          if \<not> isOpen c then (Inr False, s)
          else (case redis_setEx now key expireInSeconds v c of
                  Inr c' \<Rightarrow> (Inr True, s\<lparr>redis := Some c'\<rparr>)
                | Inl e \<Rightarrow> (Inr False, s)))"

definition getCache :: "int \<Rightarrow> string \<Rightarrow> service_state \<Rightarrow> error + qr_record option" where
  "getCache now key s =
     (case redis s of
        None \<Rightarrow> Inr None
      | Some c \<Rightarrow>
          if \<not> isOpen c then Inr None
          else (case redis_get now key c of
                  Inr v \<Rightarrow> Inr v
                | Inl e \<Rightarrow> Inr None))"

definition deleteCache :: "string \<Rightarrow> service_state \<Rightarrow> (error + bool) \<times> service_state" where
  "deleteCache key s =
     (case redis s of
        None \<Rightarrow> (Inr False, s)
      | Some c \<Rightarrow>
          if \<not> isOpen c then (Inr False, s)
          else (case redis_del key c of
                  Inr c' \<Rightarrow> (Inr True, s\<lparr>redis := Some c'\<rparr>)
                | Inl e \<Rightarrow> (Inr False, s)))"

section \<open>The scan log (\<^verbatim>\<open>sqlite.js\<close>)\<close>

definition or_null :: "string option \<Rightarrow> string option" where
  "or_null u = (if truthy u then u else None)"

definition sqliteQuery_insert_scan :: "scan_log \<Rightarrow> service_state \<Rightarrow> error + service_state" where
  "sqliteQuery_insert_scan l s =
     (case sqlite s of
        None \<Rightarrow> Inl Database_not_initialized
      | Some db \<Rightarrow> Inr (s\<lparr>sqlite := Some (db\<lparr>qr_scan_logs := qr_scan_logs db @ [l]\<rparr>)\<rparr>))"

definition logScan ::
  "string \<Rightarrow> scanner_info \<Rightarrow> service_state \<Rightarrow> (error + bool) \<times> service_state" where
  "logScan qrId scannerInfo s =
     (case sqliteQuery_insert_scan
             \<lparr>scan_qr_id = qrId,
              scanner_ip = or_null (info_ip scannerInfo),
              scanner_user_agent = or_null (info_userAgent scannerInfo),
              scanner_location = or_null (info_location scannerInfo),
              scan_metadata = (case info_metadata scannerInfo of None \<Rightarrow> ''{}'' | Some m \<Rightarrow> m)\<rparr> s of
        Inr s' \<Rightarrow> (Inr True, s')
      | Inl e \<Rightarrow> (Inr False, s))"

section \<open>The service (\<^verbatim>\<open>qrService.js\<close>)\<close>

subsection \<open>\<open>incrementAccessCount\<close>\<close>

definition memory_increment :: "string \<Rightarrow> service_state \<Rightarrow> service_state" where
  "memory_increment i s =
     (case map_of (memoryStore s) i of
        None \<Rightarrow> s
      | Some qrRecord \<Rightarrow>
          s\<lparr>memoryStore :=
               AList.update i (qrRecord\<lparr>access_count := access_count qrRecord + 1\<rparr>) (memoryStore s)\<rparr>)"

definition incrementAccessCount ::
  "string \<Rightarrow> service_state \<Rightarrow> (error + unit) \<times> service_state" where
  "incrementAccessCount i s =
     (case sqliteQuery_increment i s of
        Inr s' \<Rightarrow> (Inr (), s')
      | Inl sqliteError \<Rightarrow>
          (case pgQuery_increment i s of
             Inr s' \<Rightarrow> (Inr (), s')
           | Inl pgError \<Rightarrow> (Inr (), memory_increment i s)))"

subsection \<open>\<open>getQR\<close>\<close>

text \<open>
  The two nested \<open>try\<close> blocks of the cache-miss path: PostgreSQL is asked inside the
  \<open>catch\<close> of the SQLite query.
\<close>

definition first_row :: "qr_record list \<Rightarrow> qr_record option" where
  "first_row rows = (case rows of [] \<Rightarrow> None | r # _ \<Rightarrow> Some r)"

definition getQR_databases :: "int \<Rightarrow> string \<Rightarrow> service_state \<Rightarrow> qr_record option" where
  "getQR_databases now i s =
     (case sqliteQuery_select_visible now i s of
        Inr rows \<Rightarrow> first_row rows
      | Inl sqliteError \<Rightarrow>
          (case pgQuery_select_visible now i s of
             Inr rows \<Rightarrow> first_row rows
           | Inl pgError \<Rightarrow> None))"

text \<open>\<^verbatim>\<open>qrRecord.expires_at && new Date(qrRecord.expires_at) < new Date()\<close>\<close>

definition memory_expired :: "int \<Rightarrow> qr_record \<Rightarrow> bool" where
  "memory_expired now r = (case expires_at r of None \<Rightarrow> False | Some e \<Rightarrow> e < now)"

definition getQR_memory ::
  "int \<Rightarrow> string \<Rightarrow> service_state \<Rightarrow> (error + qr_record option) \<times> service_state" where
  "getQR_memory now i s =
     (case map_of (memoryStore s) i of
        None \<Rightarrow> (Inr None, s)
      | Some qrRecord \<Rightarrow>
          if memory_expired now qrRecord
          then (Inl QR_code_not_found_or_expired,
                s\<lparr>memoryStore := AList.delete i (memoryStore s)\<rparr>)
          else (Inr (Some qrRecord), s))"

definition cache_ttl :: "int \<Rightarrow> qr_record \<Rightarrow> int" where
  "cache_ttl now r =
     (case expires_at r of None \<Rightarrow> 3600 | Some e \<Rightarrow> max 0 ((e - now) div 1000))"

definition getQR_miss ::
  "int \<Rightarrow> string \<Rightarrow> service_state \<Rightarrow> (error + qr_record) \<times> service_state" where
  "getQR_miss now i s =
     (case (case getQR_databases now i s of
              Some r \<Rightarrow> (Inr (Some r), s)
            | None \<Rightarrow> getQR_memory now i s) of
        (Inl e, s1) \<Rightarrow> (Inl e, s1)
      | (Inr None, s1) \<Rightarrow> (Inl QR_code_not_found_or_expired, s1)
      | (Inr (Some r), s1) \<Rightarrow>
          (Inr r, snd (setCache now (''qr:'' @ i) r (cache_ttl now r) s1)))"

text \<open>
  The end of \<open>getQR\<close>: the scan is logged, the increment is started without being
  awaited, and the view returned is built from the record as it was found. The model
  lets the increment run to its end before the call returns.
\<close>

definition getQR_finish ::
  "string \<Rightarrow> scanner_info \<Rightarrow> qr_record \<Rightarrow> service_state \<Rightarrow> (error + qr_public) \<times> service_state" where
  "getQR_finish i scannerInfo r s =
     (let s1 = snd (logScan i scannerInfo s);
          s2 = snd (incrementAccessCount i s1)
      in (Inr (public_view r), s2))"

definition getQR ::
  "int \<Rightarrow> string \<Rightarrow> scanner_info \<Rightarrow> service_state \<Rightarrow> (error + qr_public) \<times> service_state" where
  "getQR now i scannerInfo s =
     (case (case getCache now (''qr:'' @ i) s of Inr v \<Rightarrow> v | Inl cacheError \<Rightarrow> None) of
        Some r \<Rightarrow> getQR_finish i scannerInfo r s
      | None \<Rightarrow>
          (case getQR_miss now i s of
             (Inl e, s1) \<Rightarrow> (Inl e, s1)
           | (Inr r, s1) \<Rightarrow> getQR_finish i scannerInfo r s1))"

subsection \<open>\<open>deleteQR\<close>\<close>

definition deleteQR_databases ::
  "string \<Rightarrow> string option \<Rightarrow> service_state \<Rightarrow> bool \<times> service_state" where
  "deleteQR_databases i userId s =
     (case sqliteQuery_retire i userId s of
        Inr (rowCount, s') \<Rightarrow> (rowCount > 0, s')
      | Inl sqliteError \<Rightarrow>
          (case pgQuery_retire i userId s of
             Inr (rowCount, s') \<Rightarrow> (rowCount > 0, s')
           | Inl pgError \<Rightarrow> (False, s)))"

definition deleteQR_memory :: "string \<Rightarrow> bool \<times> service_state \<Rightarrow> bool \<times> service_state" where
  "deleteQR_memory i ds =
     (case ds of
        (deleted, s) \<Rightarrow>
          if map_of (memoryStore s) i \<noteq> None
          then (True, s\<lparr>memoryStore := AList.delete i (memoryStore s)\<rparr>)
          else (deleted, s))"

definition deleteQR ::
  "string \<Rightarrow> string option \<Rightarrow> service_state \<Rightarrow> (error + bool) \<times> service_state" where
  "deleteQR i userId s =
     (case deleteQR_memory i (deleteQR_databases i userId s) of
        (deleted, s2) \<Rightarrow>
          if \<not> deleted then (Inl QR_code_not_found_or_access_denied, s2)
          else (Inr True, snd (deleteCache (''qr:'' @ i) s2)))"

subsection \<open>\<open>cleanupExpired\<close>\<close>

text \<open>
  The \<open>for ... of\<close> loop over the live \<open>Map\<close>: an entry met by the iteration is deleted
  from the store when it has expired.
\<close>

fun memory_cleanup_loop ::
  "int \<Rightarrow> (string \<times> qr_record) list \<Rightarrow> (string \<times> qr_record) list \<Rightarrow> nat
     \<Rightarrow> (string \<times> qr_record) list \<times> nat" where
  "memory_cleanup_loop now [] store memoryDeleted = (store, memoryDeleted)"
| "memory_cleanup_loop now ((i, qrRecord) # rest) store memoryDeleted =
     (if memory_expired now qrRecord
      then memory_cleanup_loop now rest (AList.delete i store) (memoryDeleted + 1)
      else memory_cleanup_loop now rest store memoryDeleted)"

definition cleanupExpired_databases :: "int \<Rightarrow> service_state \<Rightarrow> nat \<times> service_state" where
  "cleanupExpired_databases now s =
     (case sqliteQuery_delete_expired now s of
        Inr (rowCount, s') \<Rightarrow> (0 + rowCount, s')
      | Inl sqliteError \<Rightarrow>
          (case pgQuery_delete_expired now s of
             Inr (rowCount, s') \<Rightarrow> (0 + rowCount, s')
           | Inl pgError \<Rightarrow> (0, s)))"

definition cleanupExpired :: "int \<Rightarrow> service_state \<Rightarrow> (error + nat) \<times> service_state" where
  "cleanupExpired now s =
     (case cleanupExpired_databases now s of
        (deletedCount, s1) \<Rightarrow>
          (case memory_cleanup_loop now (memoryStore s1) (memoryStore s1) 0 of
             (store, memoryDeleted) \<Rightarrow>
               (Inr (if memoryDeleted > 0 then deletedCount + memoryDeleted else deletedCount),
                s1\<lparr>memoryStore := store\<rparr>)))"

subsection \<open>\<open>getStats\<close>\<close>

text \<open>\<open>toString\<close> of a count: its decimal digits.\<close>

function show_digits :: "int \<Rightarrow> string" where
  "show_digits n = (if n < 10 then [digit_char n] else show_digits (n div 10) @ [digit_char n])"
  by pat_completeness auto
termination
  by (relation "measure nat") auto

declare show_digits.simps [simp del]

record stats =
  total_codes :: string
  active_codes :: string
  total_accesses :: string
  total_scans :: string
  unique_scanners :: string
  scanned_codes :: string

text \<open>
  The aggregate over \<^verbatim>\<open>qr_codes WHERE [user_id = ? AND] is_active = 1\<close>: \<open>COUNT(*)\<close>, the
  count of the rows whose \<open>expires_at\<close> is later than now or \<open>NULL\<close>, and
  \<open>SUM(access_count)\<close>, which is \<open>NULL\<close> over no rows.
\<close>

definition stats_rows :: "string option \<Rightarrow> qr_record list \<Rightarrow> qr_record list" where
  "stats_rows userId rows =
     filter (\<lambda>r. (if truthy userId then user_id r = userId else True) \<and> is_active r = Some True) rows"

definition aggregate_row ::
  "(qr_record \<Rightarrow> bool) \<Rightarrow> qr_record list \<Rightarrow> nat \<times> nat \<times> nat option" where
  "aggregate_row later rows =
     (length rows, length (filter later rows),
      if rows = [] then None else Some (sum_list (map access_count rows)))"

definition sqlite_later :: "int \<Rightarrow> qr_record \<Rightarrow> bool" where
  "sqlite_later now r = (case expires_at r of None \<Rightarrow> True | Some e \<Rightarrow> sqlite_gt_now e now)"

definition pg_later :: "int \<Rightarrow> qr_record \<Rightarrow> bool" where
  "pg_later now r = (case expires_at r of None \<Rightarrow> True | Some e \<Rightarrow> now < e)"

definition sqliteQuery_stats ::
  "int \<Rightarrow> string option \<Rightarrow> service_state \<Rightarrow> error + nat \<times> nat \<times> nat option" where
  "sqliteQuery_stats now userId s =
     (case sqlite s of
        None \<Rightarrow> Inl Database_not_initialized
      | Some db \<Rightarrow> Inr (aggregate_row (sqlite_later now) (stats_rows userId (qr_codes db))))"

definition pgQuery_stats ::
  "int \<Rightarrow> string option \<Rightarrow> service_state \<Rightarrow> error + nat \<times> nat \<times> nat option" where
  "pgQuery_stats now userId s =
     (case pg s of
        None \<Rightarrow> Inl Database_not_initialized
      | Some rows \<Rightarrow> Inr (aggregate_row (pg_later now) (stats_rows userId rows)))"

text \<open>
  \<open>getScanStats\<close>: the scan log joined with the active rows of \<open>qr_codes\<close>; the result is
  (\<open>scanned_codes\<close>, \<open>total_scans\<close>, \<open>unique_scanners\<close>). \<open>COUNT(DISTINCT ...)\<close> skips \<open>NULL\<close>.
\<close>

definition scan_join :: "string option \<Rightarrow> string option \<Rightarrow> sqlite_db \<Rightarrow> scan_log list" where
  "scan_join qrId userId db =
     concat (map (\<lambda>l. map (\<lambda>q. l)
                    (filter (\<lambda>q. scan_qr_id l = qr_id q \<and> is_active q = Some True
                              \<and> (if truthy qrId then Some (scan_qr_id l) = qrId else True)
                              \<and> (if truthy userId then user_id q = userId else True))
                       (qr_codes db)))
               (qr_scan_logs db))"

definition sqliteQuery_scan_stats ::
  "string option \<Rightarrow> string option \<Rightarrow> service_state \<Rightarrow> error + nat \<times> nat \<times> nat" where
  "sqliteQuery_scan_stats qrId userId s =
     (case sqlite s of
        None \<Rightarrow> Inl Database_not_initialized
      | Some db \<Rightarrow>
          (let joined = scan_join qrId userId db
           in Inr (length (remdups (map scan_qr_id joined)), length joined,
                   length (remdups (List.map_filter scanner_ip joined)))))"

definition getScanStats ::
  "string option \<Rightarrow> string option \<Rightarrow> service_state \<Rightarrow> error + nat \<times> nat \<times> nat" where
  "getScanStats qrId userId s =
     (case sqliteQuery_scan_stats qrId userId s of
        Inr row \<Rightarrow> Inr row
      | Inl e \<Rightarrow> Inr (0, 0, 0))"

definition or_zero :: "nat option \<Rightarrow> nat" where
  "or_zero v = (case v of None \<Rightarrow> 0 | Some n \<Rightarrow> n)"

definition getStats_sqlite :: "int \<Rightarrow> string option \<Rightarrow> service_state \<Rightarrow> error + stats" where
  "getStats_sqlite now userId s =
     (case sqliteQuery_stats now userId s of
        Inl e \<Rightarrow> Inl e
      | Inr (n_total, n_active, n_accesses) \<Rightarrow>
          (case getScanStats None userId s of
             Inl e \<Rightarrow> Inl e
           | Inr (n_scanned, n_scans, n_scanners) \<Rightarrow>
               Inr \<lparr>total_codes = show_digits (int n_total),
                    active_codes = show_digits (int n_active),
                    total_accesses = show_digits (int (or_zero n_accesses)),
                    total_scans = show_digits (int n_scans),
                    unique_scanners = show_digits (int n_scanners),
                    scanned_codes = show_digits (int n_scanned)\<rparr>))"

definition getStats_pg :: "int \<Rightarrow> string option \<Rightarrow> service_state \<Rightarrow> error + stats" where
  "getStats_pg now userId s =
     (case pgQuery_stats now userId s of
        Inl e \<Rightarrow> Inl e
      | Inr (n_total, n_active, n_accesses) \<Rightarrow>
          Inr \<lparr>total_codes = show_digits (int n_total),
               active_codes = show_digits (int n_active),
               total_accesses = show_digits (int (or_zero n_accesses)),
               total_scans = ''0'', unique_scanners = ''0'', scanned_codes = ''0''\<rparr>)"

text \<open>The loop over the memory store in the innermost \<open>catch\<close>.\<close>

fun memory_stats_loop ::
  "int \<Rightarrow> string option \<Rightarrow> (string \<times> qr_record) list \<Rightarrow> nat \<times> nat \<times> nat \<Rightarrow> nat \<times> nat \<times> nat" where
  "memory_stats_loop now userId [] acc = acc"
| "memory_stats_loop now userId ((i, qrRecord) # rest) (totalCodes, activeCodes, totalAccesses) =
     (if truthy userId \<and> user_id qrRecord \<noteq> userId
      then memory_stats_loop now userId rest (totalCodes, activeCodes, totalAccesses)
      else memory_stats_loop now userId rest
             (totalCodes + 1,
              (if (case expires_at qrRecord of None \<Rightarrow> True | Some e \<Rightarrow> now < e)
               then activeCodes + 1 else activeCodes),
              totalAccesses + access_count qrRecord))"

definition getStats_memory :: "int \<Rightarrow> string option \<Rightarrow> service_state \<Rightarrow> stats" where
  "getStats_memory now userId s =
     (case memory_stats_loop now userId (memoryStore s) (0, 0, 0) of
        (totalCodes, activeCodes, totalAccesses) \<Rightarrow>
          \<lparr>total_codes = show_digits (int totalCodes),
           active_codes = show_digits (int activeCodes),
           total_accesses = show_digits (int totalAccesses),
           total_scans = ''0'', unique_scanners = ''0'', scanned_codes = ''0''\<rparr>)"

definition zero_stats :: stats where
  "zero_stats =
     \<lparr>total_codes = ''0'', active_codes = ''0'', total_accesses = ''0'',
      total_scans = ''0'', unique_scanners = ''0'', scanned_codes = ''0''\<rparr>"

definition getStats_try :: "int \<Rightarrow> string option \<Rightarrow> service_state \<Rightarrow> error + stats" where
  "getStats_try now userId s =
     (case getStats_sqlite now userId s of
        Inr st \<Rightarrow> Inr st
      | Inl sqliteError \<Rightarrow>
          (case getStats_pg now userId s of
             Inr st \<Rightarrow> Inr st
           | Inl pgError \<Rightarrow> Inr (getStats_memory now userId s)))"

definition getStats :: "int \<Rightarrow> string option \<Rightarrow> service_state \<Rightarrow> error + stats" where
  "getStats now userId s =
     (case getStats_try now userId s of
        Inr st \<Rightarrow> Inr st
      | Inl error \<Rightarrow> Inr zero_stats)"

subsection \<open>\<open>generateQR\<close>\<close>

text \<open>
  \<open>parseInt\<close> without a radix: leading white space, a sign, the prefix \<open>0x\<close> for
  base 16, then the longest run of digits; no digit gives \<open>NaN\<close> (\<open>None\<close>).
\<close>

definition is_whitespace :: "char \<Rightarrow> bool" where
  "is_whitespace c = (c \<in> set [CHR 0x20, CHR 0x09, CHR 0x0A, CHR 0x0B, CHR 0x0C, CHR 0x0D])"

definition digit_of :: "int \<Rightarrow> char \<Rightarrow> int option" where
  "digit_of radix c =
     (let v = (if CHR ''0'' \<le> c \<and> c \<le> CHR ''9'' then of_char c - 48
               else if CHR ''a'' \<le> c \<and> c \<le> CHR ''z'' then of_char c - 87
               else if CHR ''A'' \<le> c \<and> c \<le> CHR ''Z'' then of_char c - 55
               else radix)
      in if v < radix then Some v else None)"

fun parse_digits :: "int \<Rightarrow> string \<Rightarrow> int option \<Rightarrow> int option" where
  "parse_digits radix [] acc = acc"
| "parse_digits radix (c # cs) acc =
     (case digit_of radix c of
        None \<Rightarrow> acc
      | Some d \<Rightarrow>
          parse_digits radix cs (Some ((case acc of None \<Rightarrow> 0 | Some a \<Rightarrow> a) * radix + d)))"

definition parseInt :: "string \<Rightarrow> int option" where
  "parseInt str =
     (let s1 = dropWhile is_whitespace str;
          negative = (take 1 s1 = ''-'');
          s2 = (if take 1 s1 = ''-'' \<or> take 1 s1 = ''+'' then drop 1 s1 else s1);
          hex = (take 2 s2 = ''0x'' \<or> take 2 s2 = ''0X'');
          s3 = (if hex then drop 2 s2 else s2)
      in case parse_digits (if hex then 16 else 10) s3 None of
           None \<Rightarrow> None
         | Some n \<Rightarrow> Some (if negative then - n else n))"

text \<open>\<^verbatim>\<open>parseInt(process.env.QR_CODE_EXPIRY_HOURS) || 24\<close>: \<open>NaN\<close> and \<open>0\<close> are falsy.\<close>

definition expiryHours_of_env :: "string option \<Rightarrow> int" where
  "expiryHours_of_env v =
     (case v of
        None \<Rightarrow> 24
      | Some str \<Rightarrow> (case parseInt str of None \<Rightarrow> 24 | Some n \<Rightarrow> if n = 0 then 24 else n))"

text \<open>
  The part of \<open>options\<close> that reaches the stores. The renderer \<open>QRCode.toBuffer\<close> is
  outside the service: the data URL it gives for this call, or its failure, is the
  argument \<open>rendered\<close>; the fresh identifier \<open>uuidv4()\<close> is the argument \<open>uuid\<close>.
\<close>

record gen_options =
  opt_userId :: "string option"
  opt_metadata :: "string option"

definition memory_record :: "int \<Rightarrow> string \<Rightarrow> string \<Rightarrow> string \<Rightarrow> int \<Rightarrow> qr_record" where
  "memory_record now uuid dat qrImageUrl expiresAt =
     \<lparr>qr_id = uuid, qr_data = dat, qr_image_url = qrImageUrl, created_at = now,
      expires_at = Some expiresAt, access_count = 0,
      user_id = None, metadata = None, is_active = None\<rparr>"

definition database_row ::
  "int \<Rightarrow> string \<Rightarrow> string \<Rightarrow> string \<Rightarrow> int \<Rightarrow> gen_options \<Rightarrow> qr_record" where
  "database_row now uuid dat qrImageUrl expiresAt options =
     \<lparr>qr_id = uuid, qr_data = dat, qr_image_url = qrImageUrl, created_at = now,
      expires_at = Some expiresAt, access_count = 0,
      user_id = or_null (opt_userId options),
      metadata = Some (case opt_metadata options of None \<Rightarrow> ''{}'' | Some m \<Rightarrow> m),
      is_active = Some True\<rparr>"

definition generateQR_store ::
  "qr_record \<Rightarrow> qr_record \<Rightarrow> service_state \<Rightarrow> (error + qr_record) \<times> service_state" where
  "generateQR_store qrRecord row s =
     (case sqliteQuery_insert row s of
        Inr s' \<Rightarrow> (Inr row, s')
      | Inl sqliteError \<Rightarrow>
          (case pgQuery_insert row s of
             Inr s' \<Rightarrow> (Inr row, s')
           | Inl pgError \<Rightarrow>
               (let s1 = s\<lparr>memoryStore := AList.update (qr_id qrRecord) qrRecord (memoryStore s)\<rparr>
                in if env_NODE_ENV s = Some ''production''
                   then (Inl Database_storage_failed, s1)
                   else (Inr qrRecord, s1))))"

definition generateQR ::
  "int \<Rightarrow> string \<Rightarrow> error + string \<Rightarrow> string \<Rightarrow> gen_options \<Rightarrow> service_state
     \<Rightarrow> (error + qr_public) \<times> service_state" where
  "generateQR now uuid rendered dat options s =
     (case rendered of
        Inl renderError \<Rightarrow> (Inl Failed_to_generate_QR_code, s)
      | Inr qrImageUrl \<Rightarrow>
          (let expiryHours = expiryHours_of_env (env_QR_CODE_EXPIRY_HOURS s);
               expiresAt = now + expiryHours * 60 * 60 * 1000
           in case generateQR_store (memory_record now uuid dat qrImageUrl expiresAt)
                     (database_row now uuid dat qrImageUrl expiresAt options) s of
                (Inl error, s1) \<Rightarrow> (Inl Failed_to_generate_QR_code, s1)
              | (Inr qrRecord, s1) \<Rightarrow>
                  (Inr (public_view qrRecord),
                   snd (setCache now (''qr:'' @ uuid) qrRecord (expiryHours * 3600) s1))))"

section \<open>The generate handler (\<^verbatim>\<open>qrRoutes.js\<close>)\<close>

text \<open>
  A number that passes \<open>Joi.number().min(1).max(8760)\<close> is printed by \<open>toString\<close> as
  its whole part, followed by a point and its fraction digits when it has a fraction.
\<close>

record js_number =
  whole :: nat
  frac :: string

definition js_toString :: "js_number \<Rightarrow> string" where
  "js_toString h = show_digits (int (whole h)) @ (if frac h = [] then [] else ''.'' @ frac h)"

definition frac_is_zero :: "js_number \<Rightarrow> bool" where
  "frac_is_zero h = (filter (\<lambda>c. c \<noteq> CHR ''0'') (frac h) = [])"

definition js_truthy :: "js_number \<Rightarrow> bool" where
  "js_truthy h = (\<not> (whole h = 0 \<and> frac_is_zero h))"

record generate_body =
  body_data :: "string option"
  body_userId :: "string option"
  body_expiryHours :: "js_number option"
  body_metadata :: "string option"

definition generateSchema_valid :: "generate_body \<Rightarrow> bool" where
  "generateSchema_valid body =
     ((case body_data body of None \<Rightarrow> False | Some d \<Rightarrow> d \<noteq> [] \<and> length d \<le> 2048)
      \<and> (case body_userId body of None \<Rightarrow> True | Some u \<Rightarrow> u \<noteq> [] \<and> length u \<le> 255)
      \<and> (case body_expiryHours body of
            None \<Rightarrow> True
          | Some h \<Rightarrow> 1 \<le> whole h \<and> (whole h < 8760 \<or> (whole h = 8760 \<and> frac_is_zero h))))"

definition override_expiry :: "js_number option \<Rightarrow> service_state \<Rightarrow> service_state" where
  "override_expiry expiryHours s =
     (case expiryHours of
        None \<Rightarrow> s
      | Some h \<Rightarrow> if js_truthy h then s\<lparr>env_QR_CODE_EXPIRY_HOURS := Some (js_toString h)\<rparr> else s)"

definition post_generate ::
  "int \<Rightarrow> string \<Rightarrow> error + string \<Rightarrow> generate_body \<Rightarrow> service_state
     \<Rightarrow> (error + qr_public) \<times> service_state" where
  "post_generate now uuid rendered body s =
     (if \<not> generateSchema_valid body then (Inl Validation_failed, s)
      else (case body_data body of
              None \<Rightarrow> (Inl Validation_failed, s)
            | Some dat \<Rightarrow>
                generateQR now uuid rendered dat
                  \<lparr>opt_userId = body_userId body, opt_metadata = body_metadata body\<rparr>
                  (override_expiry (body_expiryHours body) s)))"

section \<open>Example states\<close>

text \<open>
  The instant \<open>t0\<close> is 2026-11-03T10:00:00Z. \<open>example_row\<close> is a row as \<open>generateQR\<close>
  inserts it for the owner \<open>alice\<close>, expiring a day after \<open>t0\<close>; \<open>expired_row\<close> expired
  a day before \<open>t0\<close>.
\<close>

definition t0 :: int where
  "t0 = 1793700000000"

definition example_row :: qr_record where
  "example_row =
     database_row t0 ''a'' ''https://x.test'' ''data:image/png;base64,AA'' (t0 + 86400000)
       \<lparr>opt_userId = Some ''alice'', opt_metadata = None\<rparr>"

definition expired_row :: qr_record where
  "expired_row =
     database_row (t0 - 172800000) ''b'' ''https://y.test'' ''data:image/png;base64,BB''
       (t0 - 86400000) \<lparr>opt_userId = Some ''alice'', opt_metadata = None\<rparr>"

definition no_scanner :: scanner_info where
  "no_scanner =
     \<lparr>info_ip = None, info_userAgent = None, info_location = None, info_metadata = None\<rparr>"

text \<open>Both databases unreachable, nothing in memory, no redis client.\<close>

definition all_down :: service_state where
  "all_down =
     \<lparr>sqlite = None, pg = None, memoryStore = [], redis = None,
      env_QR_CODE_EXPIRY_HOURS = None, env_NODE_ENV = None\<rparr>"

text \<open>SQLite reachable with an empty table, PostgreSQL holding the rows given.\<close>

definition secondary_holds :: "qr_record list \<Rightarrow> service_state" where
  "secondary_holds rows =
     all_down\<lparr>sqlite := Some \<lparr>qr_codes = [], qr_scan_logs = []\<rparr>, pg := Some rows\<rparr>"

text \<open>SQLite holding the rows given, PostgreSQL unreachable.\<close>

definition primary_holds :: "qr_record list \<Rightarrow> service_state" where
  "primary_holds rows = all_down\<lparr>sqlite := Some \<lparr>qr_codes = rows, qr_scan_logs = []\<rparr>\<rparr>"

text \<open>Only PostgreSQL reachable.\<close>

definition secondary_alone :: "qr_record list \<Rightarrow> service_state" where
  "secondary_alone rows = all_down\<lparr>pg := Some rows\<rparr>"

text \<open>
  The state after \<open>generateQR\<close> for the owner \<open>alice\<close> at \<open>t0\<close> with both databases
  unreachable: the record sits in the memory store alone.
\<close>

definition degraded :: service_state where
  "degraded =
     snd (generateQR t0 ''a'' (Inr ''data:image/png;base64,AA'') ''https://x.test''
            \<lparr>opt_userId = Some ''alice'', opt_metadata = None\<rparr> all_down)"

text \<open>The record that call leaves in the memory store.\<close>

definition degraded_record :: qr_record where
  "degraded_record =
     memory_record t0 ''a'' ''https://x.test'' ''data:image/png;base64,AA'' (t0 + 86400000)"

text \<open>
  Two requests to the generate handler, the first asking for 48 hours, the second
  leaving \<open>expiryHours\<close> out, and a process configured with a default of 24 hours.
\<close>

definition request_two_days :: generate_body where
  "request_two_days =
     \<lparr>body_data = Some ''https://x.test'', body_userId = Some ''alice'',
      body_expiryHours = Some \<lparr>whole = 48, frac = []\<rparr>, body_metadata = None\<rparr>"

definition request_default :: generate_body where
  "request_default =
     \<lparr>body_data = Some ''https://y.test'', body_userId = Some ''bob'',
      body_expiryHours = None, body_metadata = None\<rparr>"

definition configured_one_day :: service_state where
  "configured_one_day = all_down\<lparr>env_QR_CODE_EXPIRY_HOURS := Some ''24''\<rparr>"

text \<open>
  An active row of \<open>alice\<close> that expires at 11:00 on the day of \<open>t0\<close>, one hour after
  \<open>t0\<close>.
\<close>

definition stale_row :: qr_record where
  "stale_row =
     database_row t0 ''a'' ''https://x.test'' ''data:image/png;base64,AA'' (t0 + 3600000)
       \<lparr>opt_userId = Some ''alice'', opt_metadata = None\<rparr>"

section \<open>Properties\<close>

subsection \<open>The example states, evaluated\<close>

lemmas example_defs =
  t0_def example_row_def expired_row_def no_scanner_def all_down_def secondary_holds_def
  primary_holds_def secondary_alone_def database_row_def memory_record_def or_null_def truthy_def

lemma degraded_eq: "degraded = all_down\<lparr>memoryStore := [(''a'', degraded_record)]\<rparr>"
  by (simp add: degraded_def generateQR_def generateQR_store_def all_down_def sqliteQuery_insert_def
       pgQuery_insert_def Let_def expiryHours_of_env_def setCache_def memory_record_def
       degraded_record_def)

lemma example_row_pg_visible: "pg_select_visible t0 ''a'' [example_row] = [example_row]"
  by (simp add: pg_select_visible_def pg_visible_def example_defs)

lemma example_row_matches: "retire_matches ''a'' None example_row"
  by (simp add: retire_matches_def example_defs)

lemma no_redis_miss: "redis s = None \<Longrightarrow> getCache now key s = Inr None"
  by (simp add: getCache_def)

subsection \<open>Best-effort side operations\<close>

lemma generateQR_store_redis:
  "fst (generateQR_store m r (s\<lparr>redis := c\<rparr>)) = fst (generateQR_store m r s)"
  by (auto simp: generateQR_store_def sqliteQuery_insert_def pgQuery_insert_def Let_def
        split: option.splits sum.splits)

lemma generateQR_redis:
  "fst (generateQR now uuid rendered dat options (s\<lparr>redis := c\<rparr>)) =
     fst (generateQR now uuid rendered dat options s)"
proof (cases rendered)
  case (Inl e)
  then show ?thesis by (simp add: generateQR_def)
next
  case (Inr url)
  let ?x = "now + expiryHours_of_env (env_QR_CODE_EXPIRY_HOURS s) * 60 * 60 * 1000"
  let ?m = "memory_record now uuid dat url ?x"
  let ?r = "database_row now uuid dat url ?x options"
  obtain a s1 where 1: "generateQR_store ?m ?r s = (a, s1)"
    by (cases "generateQR_store ?m ?r s")
  obtain b s2 where 2: "generateQR_store ?m ?r (s\<lparr>redis := c\<rparr>) = (b, s2)"
    by (cases "generateQR_store ?m ?r (s\<lparr>redis := c\<rparr>)")
  from generateQR_store_redis [of ?m ?r c s] 1 2 have "b = a" by simp
  with Inr 1 2 show ?thesis
    by (cases a) (simp_all add: generateQR_def Let_def)
qed


text \<open>
  Claim C9. Cache population (\<open>setCache\<close>), scan logging (\<open>logScan\<close>) and the access-count
  increment (\<open>incrementAccessCount\<close>) return normally on every input and in every state of
  the cache and of the databases: each ends in a value \<open>Inr\<close>, never in an error. The last
  steps of a retrieval, which log the scan and increment the count, therefore always hand
  the record found back to the caller, and what \<open>generateQR\<close> returns does not depend on
  the state of the cache.
\<close>

theorem side_operations_never_raise:
  "(\<exists>b s'. setCache now key v expireInSeconds s = (Inr b, s'))
   \<and> (\<exists>b s'. logScan qrId scannerInfo s = (Inr b, s'))
   \<and> (\<exists>s'. incrementAccessCount i s = (Inr (), s'))
   \<and> fst (getQR_finish i scannerInfo r s) = Inr (public_view r)
   \<and> fst (generateQR now uuid rendered dat options (s\<lparr>redis := c\<rparr>))
       = fst (generateQR now uuid rendered dat options s)"
proof -
  have c: "\<exists>b s'. setCache now key v expireInSeconds s = (Inr b, s')"
    by (auto simp: setCache_def split: option.splits sum.splits)
  have l: "\<exists>b s'. logScan qrId scannerInfo s = (Inr b, s')"
    by (auto simp: logScan_def split: sum.splits)
  have a: "\<exists>s'. incrementAccessCount i s = (Inr (), s')"
    by (auto simp: incrementAccessCount_def split: sum.splits)
  have f: "fst (getQR_finish i scannerInfo r s) = Inr (public_view r)"
    by (simp add: getQR_finish_def Let_def)
  from c l a f generateQR_redis show ?thesis by blast
qed

subsection \<open>The result of \<open>getQR\<close> on a cache miss\<close>

lemma getQR_miss_fst:
  "fst (getQR_miss now i s) =
     (case getQR_databases now i s of
        Some r \<Rightarrow> Inr r
      | None \<Rightarrow> (case fst (getQR_memory now i s) of
                   Inl e \<Rightarrow> Inl e
                 | Inr None \<Rightarrow> Inl QR_code_not_found_or_expired
                 | Inr (Some r) \<Rightarrow> Inr r))"
  by (simp add: getQR_miss_def split: option.splits prod.splits sum.splits)

lemma getQR_fst:
  assumes "getCache now (''qr:'' @ i) s = Inr None"
  shows "fst (getQR now i info s) = map_sum id public_view (fst (getQR_miss now i s))"
  using assms
  by (simp add: getQR_def getQR_finish_def Let_def split: prod.splits sum.splits)

subsection \<open>Visibility in each tier\<close>

text \<open>
  SQLite compares the stored text with the text of \<open>datetime('now')\<close>. The two agree
  up to the date; the eleventh character is \<open>T\<close> in the one and a space in the other,
  so on the day of expiry the stored text is the greater one at every hour.
\<close>

lemma append_less_append: "xs @ ys < xs @ (zs::string) \<longleftrightarrow> ys < zs"
  by (induction xs) auto

lemma sqlite_same_date:
  "date_text e = date_text now \<Longrightarrow> sqlite_gt_now e now \<and> \<not> sqlite_lt_now e now"
  by (simp add: sqlite_gt_now_def sqlite_lt_now_def toISOString_def sqlite_datetime_def
        append_less_append)

lemma sqlite_same_day_example:
  "toISOString (t0 + 3600000) = ''2026-11-03T11:00:00.000Z''
   \<and> sqlite_datetime (t0 + 7200000) = ''2026-11-03 12:00:00''
   \<and> sqlite_gt_now (t0 + 3600000) (t0 + 7200000)"
  by code_simp

lemma select_by_key:
  assumes "distinct (map qr_id rows)" "r \<in> set rows"
  shows "filter (\<lambda>x. qr_id x = qr_id r \<and> P x) rows = (if P r then [r] else [])"
  using assms
proof (induction rows)
  case Nil
  then show ?case by simp
next
  case (Cons x rows)
  show ?case
  proof (cases "x = r")
    case True
    from Cons.prems True have "qr_id r \<notin> qr_id ` set rows" by simp
    then have "\<forall>y\<in>set rows. qr_id y \<noteq> qr_id r" by (metis imageI)
    then have "filter (\<lambda>x. qr_id x = qr_id r \<and> P x) rows = []"
      by (simp add: filter_empty_conv)
    with True show ?thesis by simp
  next
    case False
    with Cons.prems have "r \<in> set rows" "qr_id x \<noteq> qr_id r" by auto
    with Cons show ?thesis by simp
  qed
qed

lemma select_absent:
  "i \<notin> qr_id ` set rows \<Longrightarrow> filter (\<lambda>x. qr_id x = i \<and> P x) rows = []"
  by (auto simp: filter_empty_conv)

text \<open>
  What the lookup of \<open>getQR\<close> finds in each tier. In PostgreSQL: the row with the
  identifier when \<open>is_active\<close> is true and \<open>expires_at\<close> is unset or later than now. In
  SQLite: the row when \<open>is_active\<close> is true and \<open>expires_at\<close> is unset or its text is
  greater than the text of \<open>datetime('now')\<close>. In the memory store: the record unless
  \<open>expires_at\<close> is set and earlier than now.
\<close>

lemma tier_lookups:
  "(\<forall>rows r. distinct (map qr_id rows) \<and> r \<in> set rows \<longrightarrow>
       first_row (pg_select_visible now (qr_id r) rows) =
         (if is_active r = Some True \<and> (expires_at r = None \<or> (\<exists>e. expires_at r = Some e \<and> now < e))
          then Some r else None)
       \<and> first_row (sqlite_select_visible now (qr_id r) rows) =
         (if is_active r = Some True
             \<and> (expires_at r = None \<or> (\<exists>e. expires_at r = Some e \<and> sqlite_gt_now e now))
          then Some r else None))
   \<and> (\<forall>rows. i \<notin> qr_id ` set rows \<longrightarrow>
         first_row (pg_select_visible now i rows) = None
         \<and> first_row (sqlite_select_visible now i rows) = None)
   \<and> (\<forall>r. map_of (memoryStore s) i = Some r \<longrightarrow>
         fst (getQR_memory now i s) =
           (if \<exists>e. expires_at r = Some e \<and> e < now
            then Inl QR_code_not_found_or_expired else Inr (Some r)))
   \<and> (map_of (memoryStore s) i = None \<longrightarrow> getQR_memory now i s = (Inr None, s))"
proof -
  have db: "first_row (pg_select_visible now (qr_id r) rows) =
         (if is_active r = Some True \<and> (expires_at r = None \<or> (\<exists>e. expires_at r = Some e \<and> now < e))
          then Some r else None)
       \<and> first_row (sqlite_select_visible now (qr_id r) rows) =
         (if is_active r = Some True
             \<and> (expires_at r = None \<or> (\<exists>e. expires_at r = Some e \<and> sqlite_gt_now e now))
          then Some r else None)"
    if "distinct (map qr_id rows)" "r \<in> set rows" for rows r
    using that
    by (auto simp: pg_select_visible_def sqlite_select_visible_def select_by_key first_row_def
          pg_visible_def sqlite_visible_def split: option.splits)
  have absent: "first_row (pg_select_visible now i rows) = None
         \<and> first_row (sqlite_select_visible now i rows) = None"
    if "i \<notin> qr_id ` set rows" for rows
    using that
    by (simp add: pg_select_visible_def sqlite_select_visible_def select_absent first_row_def)
  have mem: "fst (getQR_memory now i s) =
           (if \<exists>e. expires_at r = Some e \<and> e < now
            then Inl QR_code_not_found_or_expired else Inr (Some r))"
    if "map_of (memoryStore s) i = Some r" for r
    using that by (auto simp: getQR_memory_def memory_expired_def split: option.splits)
  have none: "map_of (memoryStore s) i = None \<longrightarrow> getQR_memory now i s = (Inr None, s)"
    by (simp add: getQR_memory_def)
  from db absent mem none show ?thesis by blast
qed

text \<open>
  For instance: the active row is found in PostgreSQL, its retired copy is not found in
  SQLite, the record in the memory store is found, and an unknown identifier is not.
\<close>

lemma tier_lookups_example:
  "first_row (pg_select_visible t0 ''a'' [example_row]) = Some example_row
   \<and> first_row (sqlite_select_visible t0 ''a'' [example_row\<lparr>is_active := Some False\<rparr>]) = None
   \<and> fst (getQR_memory t0 ''a'' degraded) = Inr (Some degraded_record)
   \<and> getQR_memory t0 ''b'' degraded = (Inr None, degraded)"
proof -
  have a: "distinct (map qr_id [example_row]) \<and> example_row \<in> set [example_row]
           \<and> qr_id example_row = ''a'' \<and> is_active example_row = Some True
           \<and> expires_at example_row = Some (t0 + 86400000)"
    by (simp add: example_defs)
  have b: "distinct (map qr_id [example_row\<lparr>is_active := Some False\<rparr>])
           \<and> example_row\<lparr>is_active := Some False\<rparr> \<in> set [example_row\<lparr>is_active := Some False\<rparr>]
           \<and> qr_id (example_row\<lparr>is_active := Some False\<rparr>) = ''a''"
    by (simp add: example_defs)
  have m: "map_of (memoryStore degraded) ''a'' = Some degraded_record
           \<and> map_of (memoryStore degraded) ''b'' = None
           \<and> expires_at degraded_record = Some (t0 + 86400000)"
    by (simp add: degraded_eq degraded_record_def memory_record_def)
  note A = tier_lookups [of t0 "''a''" degraded]
  note B = tier_lookups [of t0 "''b''" degraded]
  from A have "distinct (map qr_id [example_row]) \<and> example_row \<in> set [example_row] \<longrightarrow>
       first_row (pg_select_visible t0 (qr_id example_row) [example_row]) =
         (if is_active example_row = Some True
             \<and> (expires_at example_row = None \<or> (\<exists>e. expires_at example_row = Some e \<and> t0 < e))
          then Some example_row else None)"
    by blast
  with a have 1: "first_row (pg_select_visible t0 ''a'' [example_row]) = Some example_row"
    by simp
  from A have "distinct (map qr_id [example_row\<lparr>is_active := Some False\<rparr>])
         \<and> example_row\<lparr>is_active := Some False\<rparr> \<in> set [example_row\<lparr>is_active := Some False\<rparr>] \<longrightarrow>
       first_row (sqlite_select_visible t0 (qr_id (example_row\<lparr>is_active := Some False\<rparr>))
                    [example_row\<lparr>is_active := Some False\<rparr>]) =
         (if is_active (example_row\<lparr>is_active := Some False\<rparr>) = Some True
             \<and> (expires_at (example_row\<lparr>is_active := Some False\<rparr>) = None
                 \<or> (\<exists>e. expires_at (example_row\<lparr>is_active := Some False\<rparr>) = Some e \<and> sqlite_gt_now e t0))
          then Some (example_row\<lparr>is_active := Some False\<rparr>) else None)"
    by blast
  with b have 2: "first_row (sqlite_select_visible t0 ''a'' [example_row\<lparr>is_active := Some False\<rparr>]) = None"
    by simp
  from A m have 3: "fst (getQR_memory t0 ''a'' degraded) = Inr (Some degraded_record)"
    by simp
  from B m have 4: "getQR_memory t0 ''b'' degraded = (Inr None, degraded)"
    by simp
  from 1 2 3 4 show ?thesis by blast
qed

lemma stale_row_fields:
  "qr_id stale_row = ''a'' \<and> is_active stale_row = Some True
   \<and> expires_at stale_row = Some (t0 + 3600000)"
  by (simp add: stale_row_def database_row_def)

text \<open>
  Claim C1 fails on the code, in the primary tier. The row \<open>stale_row\<close> is active and
  expired at 11:00; at 12:00 of the same day the SQLite lookup still selects it and
  \<open>getQR\<close> returns it, because the statement compares the stored text
  \<^verbatim>\<open>2026-11-03T11:00:00.000Z\<close> with \<^verbatim>\<open>2026-11-03 12:00:00\<close>, and \<open>T\<close> is greater than
  a space. The PostgreSQL lookup of the same function, which compares timestamps, does
  what the claim says: the row is not selected and the retrieval fails.
\<close>

theorem sqlite_serves_expired_row:
  "is_active stale_row = Some True
   \<and> expires_at stale_row = Some (t0 + 3600000)
   \<and> toISOString (t0 + 3600000) = ''2026-11-03T11:00:00.000Z''
   \<and> sqlite_datetime (t0 + 7200000) = ''2026-11-03 12:00:00''
   \<and> sqliteQuery_select_visible (t0 + 7200000) ''a'' (primary_holds [stale_row]) = Inr [stale_row]
   \<and> fst (getQR (t0 + 7200000) ''a'' no_scanner (primary_holds [stale_row]))
       = Inr (public_view stale_row)
   \<and> pgQuery_select_visible (t0 + 7200000) ''a'' (secondary_alone [stale_row]) = Inr []
   \<and> fst (getQR (t0 + 7200000) ''a'' no_scanner (secondary_alone [stale_row]))
       = Inl QR_code_not_found_or_expired"
proof -
  note f = stale_row_fields
  note x = sqlite_same_day_example
  have v: "sqlite_visible (t0 + 7200000) stale_row"
    using f x by (simp add: sqlite_visible_def)
  have p: "sqliteQuery_select_visible (t0 + 7200000) ''a'' (primary_holds [stale_row]) = Inr [stale_row]"
    using f v
    by (simp add: sqliteQuery_select_visible_def sqlite_select_visible_def primary_holds_def
          all_down_def)
  have "redis (primary_holds [stale_row]) = None"
    by (simp add: primary_holds_def all_down_def)
  then have miss1: "getCache (t0 + 7200000) (''qr:'' @ ''a'') (primary_holds [stale_row]) = Inr None"
    by (rule no_redis_miss)
  have g1: "fst (getQR (t0 + 7200000) ''a'' no_scanner (primary_holds [stale_row]))
       = Inr (public_view stale_row)"
    by (simp add: getQR_fst [OF miss1] getQR_miss_fst getQR_databases_def p first_row_def)
  have q: "pgQuery_select_visible (t0 + 7200000) ''a'' (secondary_alone [stale_row]) = Inr []"
    using f
    by (simp add: pgQuery_select_visible_def pg_select_visible_def pg_visible_def
          secondary_alone_def all_down_def)
  have "redis (secondary_alone [stale_row]) = None"
    by (simp add: secondary_alone_def all_down_def)
  then have miss2: "getCache (t0 + 7200000) (''qr:'' @ ''a'') (secondary_alone [stale_row]) = Inr None"
    by (rule no_redis_miss)
  have s: "sqliteQuery_select_visible (t0 + 7200000) ''a'' (secondary_alone [stale_row])
             = Inl Database_not_initialized"
    by (simp add: sqliteQuery_select_visible_def secondary_alone_def all_down_def)
  have g2: "fst (getQR (t0 + 7200000) ''a'' no_scanner (secondary_alone [stale_row]))
       = Inl QR_code_not_found_or_expired"
    by (simp add: getQR_fst [OF miss2] getQR_miss_fst getQR_databases_def s q first_row_def
          getQR_memory_def)
       (simp add: secondary_alone_def all_down_def)
  from f x p g1 q g2 show ?thesis by blast
qed

subsection \<open>Retrieval on a cache miss\<close>

text \<open>
  Claim C2, as the code has it. On a cache miss \<open>getQR\<close> asks SQLite. A row found there
  is returned. PostgreSQL is asked only when the SQLite query raises, and a row found
  there is returned. When the database that was asked returns no row, or both raise, the
  memory store is consulted: a record there that has not expired is returned; without one,
  or with an expired one, the call fails with \<open>QR_code_not_found_or_expired\<close>.
\<close>

theorem getQR_cache_miss_order:
  assumes miss: "getCache now (''qr:'' @ i) s = Inr None"
  shows "(\<forall>db r rest. sqlite s = Some db \<and> sqlite_select_visible now i (qr_codes db) = r # rest
            \<longrightarrow> fst (getQR now i info s) = Inr (public_view r))
       \<and> (\<forall>rows r rest. sqlite s = None \<and> pg s = Some rows \<and> pg_select_visible now i rows = r # rest
            \<longrightarrow> fst (getQR now i info s) = Inr (public_view r))
       \<and> ((\<exists>db. sqlite s = Some db \<and> sqlite_select_visible now i (qr_codes db) = [])
           \<or> (sqlite s = None \<and> (pg s = None \<or> (\<exists>rows. pg s = Some rows \<and> pg_select_visible now i rows = [])))
            \<longrightarrow> fst (getQR now i info s) =
                (case map_of (memoryStore s) i of
                   None \<Rightarrow> Inl QR_code_not_found_or_expired
                 | Some r \<Rightarrow> if memory_expired now r then Inl QR_code_not_found_or_expired
                             else Inr (public_view r)))"
  unfolding getQR_fst[OF miss] getQR_miss_fst
  by (auto simp: getQR_databases_def sqliteQuery_select_visible_def pgQuery_select_visible_def
        first_row_def getQR_memory_def split: option.splits)

text \<open>
  The theorem at work: with SQLite unreachable and the row in PostgreSQL, the row is
  returned.
\<close>

theorem getQR_cache_miss_order_witness:
  "getCache t0 (''qr:'' @ ''a'') (secondary_alone [example_row]) = Inr None
   \<and> fst (getQR t0 ''a'' no_scanner (secondary_alone [example_row])) = Inr (public_view example_row)"
proof -
  have "redis (secondary_alone [example_row]) = None"
    by (simp add: secondary_alone_def all_down_def)
  then have miss: "getCache t0 (''qr:'' @ ''a'') (secondary_alone [example_row]) = Inr None"
    by (rule no_redis_miss)
  have st: "sqlite (secondary_alone [example_row]) = None
            \<and> pg (secondary_alone [example_row]) = Some [example_row]
            \<and> pg_select_visible t0 ''a'' [example_row] = example_row # []"
    by (simp add: secondary_alone_def all_down_def example_row_pg_visible)
  from getQR_cache_miss_order [OF miss, of no_scanner] st
  have "fst (getQR t0 ''a'' no_scanner (secondary_alone [example_row])) = Inr (public_view example_row)"
    by blast
  with miss show ?thesis by blast
qed

text \<open>
  Claim C2 as stated fails: SQLite answers and holds no row, PostgreSQL holds a visible
  row for the identifier, and the retrieval fails instead of returning that row.
\<close>

theorem getQR_skips_secondary:
  "getCache t0 (''qr:'' @ ''a'') (secondary_holds [example_row]) = Inr None
   \<and> sqliteQuery_select_visible t0 ''a'' (secondary_holds [example_row]) = Inr []
   \<and> pgQuery_select_visible t0 ''a'' (secondary_holds [example_row]) = Inr [example_row]
   \<and> fst (getQR t0 ''a'' no_scanner (secondary_holds [example_row])) = Inl QR_code_not_found_or_expired"
proof -
  have "redis (secondary_holds [example_row]) = None"
    by (simp add: secondary_holds_def all_down_def)
  then have miss: "getCache t0 (''qr:'' @ ''a'') (secondary_holds [example_row]) = Inr None"
    by (rule no_redis_miss)
  have p: "sqliteQuery_select_visible t0 ''a'' (secondary_holds [example_row]) = Inr []"
    by (simp add: sqliteQuery_select_visible_def sqlite_select_visible_def secondary_holds_def all_down_def)
  have q: "pgQuery_select_visible t0 ''a'' (secondary_holds [example_row]) = Inr [example_row]"
    by (simp add: pgQuery_select_visible_def example_row_pg_visible secondary_holds_def all_down_def)
  have r: "fst (getQR t0 ''a'' no_scanner (secondary_holds [example_row])) = Inl QR_code_not_found_or_expired"
    by (simp add: getQR_fst [OF miss] getQR_miss_fst getQR_databases_def p first_row_def
          getQR_memory_def) (simp add: secondary_holds_def all_down_def)
  from miss p q r show ?thesis by blast
qed

subsection \<open>Deletion\<close>

lemma retire_matches_is_active [simp]:
  "retire_matches i u (r\<lparr>is_active := b\<rparr>) = retire_matches i u r"
  by (simp add: retire_matches_def)

lemma update_retire_again:
  "filter (retire_matches i u) (snd (update_retire i u rows)) = []
     \<longleftrightarrow> filter (retire_matches i u) rows = []"
  by (induction rows) (auto simp: update_retire_def)

lemma deleteCache_frame:
  "sqlite (snd (deleteCache key s)) = sqlite s"
  "pg (snd (deleteCache key s)) = pg s"
  "memoryStore (snd (deleteCache key s)) = memoryStore s"
  by (auto simp: deleteCache_def split: option.splits sum.splits)

lemma deleteQR_databases_cases:
  "deleteQR_databases i u s =
     (case sqlite s of
        Some db \<Rightarrow> (filter (retire_matches i u) (qr_codes db) \<noteq> [],
                    s\<lparr>sqlite := Some (db\<lparr>qr_codes := snd (update_retire i u (qr_codes db))\<rparr>)\<rparr>)
      | None \<Rightarrow>
          (case pg s of
             Some rows \<Rightarrow> (filter (retire_matches i u) rows \<noteq> [],
                           s\<lparr>pg := Some (snd (update_retire i u rows))\<rparr>)
           | None \<Rightarrow> (False, s)))"
  by (simp add: deleteQR_databases_def sqliteQuery_retire_def pgQuery_retire_def update_retire_def
        split: option.splits)

lemma deleteQR_fst:
  "fst (deleteQR i u s) =
     (if fst (deleteQR_databases i u s) \<or> map_of (memoryStore (snd (deleteQR_databases i u s))) i \<noteq> None
      then Inr True else Inl QR_code_not_found_or_access_denied)"
  by (simp add: deleteQR_def deleteQR_memory_def split: prod.splits)

lemma deleteQR_snd_memory:
  "memoryStore (snd (deleteQR i u s)) = AList.delete i (memoryStore s)"
proof -
  have m: "memoryStore (snd (deleteQR_databases i u s)) = memoryStore s"
    by (simp add: deleteQR_databases_cases split: option.splits)
  have "memoryStore (snd (deleteQR i u s))
          = AList.delete i (memoryStore (snd (deleteQR_databases i u s)))"
    by (cases "map_of (memoryStore (snd (deleteQR_databases i u s))) i")
       (auto simp: deleteQR_def deleteQR_memory_def deleteCache_frame map_of_eq_None_iff
             split: prod.splits)
  with m show ?thesis by simp
qed

lemma deleteQR_snd_databases:
  "sqlite (snd (deleteQR i u s)) = sqlite (snd (deleteQR_databases i u s))"
  "pg (snd (deleteQR i u s)) = pg (snd (deleteQR_databases i u s))"
  by (auto simp: deleteQR_def deleteQR_memory_def deleteCache_frame split: prod.splits)





text \<open>
  Claim C4, as the code has it. The first \<open>deleteQR\<close> returns true exactly when the
  database that is asked (SQLite, or PostgreSQL when SQLite raises) holds a row the
  \<open>UPDATE\<close> matches, or the memory store holds the identifier. The second call returns
  true again exactly when that database holds a matching row, because the \<open>UPDATE\<close>
  matches retired rows as well; it fails with \<open>QR_code_not_found_or_access_denied\<close>
  when the record was in the memory store alone.
\<close>

theorem deleteQR_twice:
  "fst (deleteQR i u s) =
     (if (case sqlite s of
            Some db \<Rightarrow> filter (retire_matches i u) (qr_codes db) \<noteq> []
          | None \<Rightarrow> (case pg s of
                       Some rows \<Rightarrow> filter (retire_matches i u) rows \<noteq> []
                     | None \<Rightarrow> False))
         \<or> map_of (memoryStore s) i \<noteq> None
      then Inr True else Inl QR_code_not_found_or_access_denied)
   \<and> fst (deleteQR i u (snd (deleteQR i u s))) =
     (if (case sqlite s of
            Some db \<Rightarrow> filter (retire_matches i u) (qr_codes db) \<noteq> []
          | None \<Rightarrow> (case pg s of
                       Some rows \<Rightarrow> filter (retire_matches i u) rows \<noteq> []
                     | None \<Rightarrow> False))
      then Inr True else Inl QR_code_not_found_or_access_denied)"
proof -
  let ?s1 = "snd (deleteQR i u s)"
  have mem: "map_of (memoryStore ?s1) i = None"
    by (simp add: deleteQR_snd_memory AList.delete_conv')
  have first: "fst (deleteQR i u s) =
     (if (case sqlite s of
            Some db \<Rightarrow> filter (retire_matches i u) (qr_codes db) \<noteq> []
          | None \<Rightarrow> (case pg s of
                       Some rows \<Rightarrow> filter (retire_matches i u) rows \<noteq> []
                     | None \<Rightarrow> False))
         \<or> map_of (memoryStore s) i \<noteq> None
      then Inr True else Inl QR_code_not_found_or_access_denied)"
    by (simp add: deleteQR_fst deleteQR_databases_cases split: option.splits)
  have second: "fst (deleteQR i u ?s1) =
     (if (case sqlite s of
            Some db \<Rightarrow> filter (retire_matches i u) (qr_codes db) \<noteq> []
          | None \<Rightarrow> (case pg s of
                       Some rows \<Rightarrow> filter (retire_matches i u) rows \<noteq> []
                     | None \<Rightarrow> False))
      then Inr True else Inl QR_code_not_found_or_access_denied)"
    using mem
    by (simp add: deleteQR_fst [of i u ?s1] deleteQR_databases_cases [of i u ?s1]
          deleteQR_snd_databases deleteQR_databases_cases [of i u s] update_retire_again
          split: option.splits)
  from first second show ?thesis by blast
qed

text \<open>
  The theorem at work: a record that lives in the memory store alone is deleted by the
  first call, and the second call fails.
\<close>

theorem deleteQR_twice_witness:
  "fst (deleteQR ''a'' None degraded) = Inr True
   \<and> fst (deleteQR ''a'' None (snd (deleteQR ''a'' None degraded))) = Inl QR_code_not_found_or_access_denied"
  using deleteQR_twice [of "''a''" None degraded]
  by (simp add: degraded_eq all_down_def)

text \<open>
  Claim C4 as stated fails: the row is visible in PostgreSQL, the tier that is asked, and
  both calls return true.
\<close>

theorem deleteQR_twice_succeeds_twice:
  "pgQuery_select_visible t0 ''a'' (secondary_alone [example_row]) = Inr [example_row]
   \<and> fst (deleteQR ''a'' None (secondary_alone [example_row])) = Inr True
   \<and> fst (deleteQR ''a'' None (snd (deleteQR ''a'' None (secondary_alone [example_row])))) = Inr True"
proof -
  have a: "pgQuery_select_visible t0 ''a'' (secondary_alone [example_row]) = Inr [example_row]"
    by (simp add: pgQuery_select_visible_def example_row_pg_visible secondary_alone_def all_down_def)
  have b: "deleteQR ''a'' None (secondary_alone [example_row])
             = (Inr True, secondary_alone [example_row\<lparr>is_active := Some False\<rparr>])"
    by (simp add: deleteQR_def deleteQR_memory_def deleteQR_databases_def sqliteQuery_retire_def
        pgQuery_retire_def update_retire_def secondary_alone_def all_down_def deleteCache_def
        example_row_matches)
  have c: "fst (deleteQR ''a'' None (secondary_alone [example_row\<lparr>is_active := Some False\<rparr>])) = Inr True"
    by (simp add: deleteQR_def deleteQR_memory_def deleteQR_databases_def sqliteQuery_retire_def
        pgQuery_retire_def update_retire_def secondary_alone_def all_down_def deleteCache_def
        example_row_matches)
  from a b c show ?thesis by simp
qed

text \<open>
  Claim C5 fails on the code. The record that \<open>generateQR\<close> stored for \<open>alice\<close> in the
  memory store is removed by \<open>deleteQR\<close> called for \<open>bob\<close>, and the call returns true:
  the memory branch never looks at \<open>userId\<close>. The database branch of the same function
  does: the same call against the row in SQLite is refused and changes nothing.
\<close>

theorem deleteQR_memory_ignores_owner:
  "memoryStore degraded = [(''a'', degraded_record)]
   \<and> deleteQR ''a'' (Some ''bob'') degraded = (Inr True, all_down)
   \<and> deleteQR ''a'' (Some ''bob'') (primary_holds [example_row])
       = (Inl QR_code_not_found_or_access_denied, primary_holds [example_row])"
  by (simp add: degraded_eq)
     (simp add: deleteQR_def deleteQR_memory_def deleteQR_databases_def sqliteQuery_retire_def
        pgQuery_retire_def update_retire_def primary_holds_def all_down_def deleteCache_def
        retire_matches_def example_defs)

subsection \<open>Cleanup\<close>

lemma memory_cleanup_loop_eq:
  "memory_cleanup_loop now es store n =
     (filter (\<lambda>p. fst p \<notin> fst ` set (filter (\<lambda>q. memory_expired now (snd q)) es)) store,
      n + length (filter (\<lambda>q. memory_expired now (snd q)) es))"
proof (induction es arbitrary: store n)
  case Nil
  then show ?case by simp
next
  case (Cons e es)
  obtain i r where e: "e = (i, r)" by (cases e)
  show ?case
  proof (cases "memory_expired now r")
    case True
    have "filter (\<lambda>p. fst p \<notin> fst ` set (filter (\<lambda>q. memory_expired now (snd q)) es))
            (AList.delete i store)
          = filter (\<lambda>p. fst p \<notin> insert i (fst ` set (filter (\<lambda>q. memory_expired now (snd q)) es)))
            store"
      by (induction store) (auto simp: AList.delete_eq)
    with True e Cons.IH show ?thesis by simp
  next
    case False
    with e Cons.IH show ?thesis by simp
  qed
qed

lemma memory_cleanup_loop_self:
  assumes "distinct (map fst store)"
  shows "memory_cleanup_loop now store store 0 =
     (filter (\<lambda>p. \<not> memory_expired now (snd p)) store,
      length (filter (\<lambda>p. memory_expired now (snd p)) store))"
proof -
  have "fst p \<in> fst ` set (filter (\<lambda>q. memory_expired now (snd q)) store)
          \<longleftrightarrow> memory_expired now (snd p)" if "p \<in> set store" for p
  proof
    assume "fst p \<in> fst ` set (filter (\<lambda>q. memory_expired now (snd q)) store)"
    then obtain q where q: "q \<in> set store" "memory_expired now (snd q)" "fst q = fst p"
      by auto
    from assms q(1) that q(3) have "q = p"
      by (metis eq_key_imp_eq_value prod.collapse)
    with q(2) show "memory_expired now (snd p)" by simp
  next
    assume "memory_expired now (snd p)"
    with that show "fst p \<in> fst ` set (filter (\<lambda>q. memory_expired now (snd q)) store)"
      by auto
  qed
  then have "filter (\<lambda>p. fst p \<notin> fst ` set (filter (\<lambda>q. memory_expired now (snd q)) store)) store
             = filter (\<lambda>p. \<not> memory_expired now (snd p)) store"
    by (intro filter_cong) auto
  then show ?thesis by (simp add: memory_cleanup_loop_eq)
qed

lemma cleanupExpired_databases_cases:
  "cleanupExpired_databases now s =
     (case sqlite s of
        Some db \<Rightarrow> (length (filter (sqlite_expired now) (qr_codes db)),
                    s\<lparr>sqlite := Some (db\<lparr>qr_codes := filter (\<lambda>r. \<not> sqlite_expired now r) (qr_codes db)\<rparr>)\<rparr>)
      | None \<Rightarrow>
          (case pg s of
             Some rows \<Rightarrow> (length (filter (pg_expired now) rows),
                           s\<lparr>pg := Some (filter (\<lambda>r. \<not> pg_expired now r) rows)\<rparr>)
           | None \<Rightarrow> (0, s)))"
  by (simp add: cleanupExpired_databases_def sqliteQuery_delete_expired_def
        pgQuery_delete_expired_def delete_where_def split: option.splits)

text \<open>
  Claim C6, as the code has it. With unique keys in the memory store, \<open>cleanupExpired\<close>
  purges one database, SQLite, or PostgreSQL when the SQLite statement raises, and always
  the memory store; it returns the sum of the two counts, each the number of records
  removed. The PostgreSQL purge and the memory purge remove exactly the records whose
  \<open>expires_at\<close> is set and earlier than now, whatever \<open>is_active\<close> says; the SQLite purge
  removes exactly the rows its own comparison with \<open>datetime('now')\<close> selects. While
  SQLite answers, PostgreSQL is not purged.
\<close>

theorem cleanupExpired_tiers:
  assumes keys: "distinct (map fst (memoryStore s))"
  shows "(\<forall>db. sqlite s = Some db \<longrightarrow>
            cleanupExpired now s =
              (Inr (length (filter (sqlite_expired now) (qr_codes db))
                    + length (filter (\<lambda>p. memory_expired now (snd p)) (memoryStore s))),
               s\<lparr>sqlite := Some (db\<lparr>qr_codes := filter (\<lambda>r. \<not> sqlite_expired now r) (qr_codes db)\<rparr>),
                 memoryStore := filter (\<lambda>p. \<not> memory_expired now (snd p)) (memoryStore s)\<rparr>))
       \<and> (\<forall>rows. sqlite s = None \<and> pg s = Some rows \<longrightarrow>
            cleanupExpired now s =
              (Inr (length (filter (pg_expired now) rows)
                    + length (filter (\<lambda>p. memory_expired now (snd p)) (memoryStore s))),
               s\<lparr>pg := Some (filter (\<lambda>r. \<not> pg_expired now r) rows),
                 memoryStore := filter (\<lambda>p. \<not> memory_expired now (snd p)) (memoryStore s)\<rparr>))
       \<and> (sqlite s = None \<and> pg s = None \<longrightarrow>
            cleanupExpired now s =
              (Inr (length (filter (\<lambda>p. memory_expired now (snd p)) (memoryStore s))),
               s\<lparr>memoryStore := filter (\<lambda>p. \<not> memory_expired now (snd p)) (memoryStore s)\<rparr>))
       \<and> (\<forall>r. pg_expired now r = (\<exists>e. expires_at r = Some e \<and> e < now)
              \<and> memory_expired now r = (\<exists>e. expires_at r = Some e \<and> e < now))"
proof -
  have m: "memoryStore (snd (cleanupExpired_databases now s)) = memoryStore s"
    by (simp add: cleanupExpired_databases_cases split: option.splits)
  obtain n s1 where d: "cleanupExpired_databases now s = (n, s1)"
    by (cases "cleanupExpired_databases now s")
  with m have m1: "memoryStore s1 = memoryStore s" by simp
  with keys have l: "memory_cleanup_loop now (memoryStore s1) (memoryStore s1) 0 =
     (filter (\<lambda>p. \<not> memory_expired now (snd p)) (memoryStore s),
      length (filter (\<lambda>p. memory_expired now (snd p)) (memoryStore s)))"
    by (simp add: memory_cleanup_loop_self)
  have c: "cleanupExpired now s =
      (Inr (fst (cleanupExpired_databases now s)
            + length (filter (\<lambda>p. memory_expired now (snd p)) (memoryStore s))),
       (snd (cleanupExpired_databases now s))
         \<lparr>memoryStore := filter (\<lambda>p. \<not> memory_expired now (snd p)) (memoryStore s)\<rparr>)"
    by (simp add: cleanupExpired_def d l)
  have e: "pg_expired now r = (\<exists>e. expires_at r = Some e \<and> e < now)
              \<and> memory_expired now r = (\<exists>e. expires_at r = Some e \<and> e < now)" for r
    by (simp add: pg_expired_def memory_expired_def split: option.splits)
  show ?thesis
    unfolding c cleanupExpired_databases_cases using e by (auto split: option.splits)
qed

text \<open>
  The theorem at work: with PostgreSQL the only database, the row that expired a day
  ago is removed although it is retired, the other row stays, and the count is 1; the
  record in the memory store is removed once its expiry has passed.
\<close>

theorem cleanupExpired_tiers_witness:
  "distinct (map fst (memoryStore (secondary_alone [expired_row\<lparr>is_active := Some False\<rparr>, example_row])))
   \<and> cleanupExpired t0 (secondary_alone [expired_row\<lparr>is_active := Some False\<rparr>, example_row])
       = (Inr 1, secondary_alone [example_row])
   \<and> cleanupExpired (t0 + 86400001) degraded = (Inr 1, all_down)"
proof -
  have k: "distinct (map fst (memoryStore (secondary_alone [expired_row\<lparr>is_active := Some False\<rparr>, example_row])))"
    by (simp add: secondary_alone_def all_down_def)
  have k': "distinct (map fst (memoryStore degraded))"
    by (simp add: degraded_eq)
  have a: "cleanupExpired t0 (secondary_alone [expired_row\<lparr>is_active := Some False\<rparr>, example_row])
       = (Inr 1, secondary_alone [example_row])"
    using cleanupExpired_tiers [OF k, of t0]
    by (simp add: secondary_alone_def all_down_def pg_expired_def example_defs)
  have b: "cleanupExpired (t0 + 86400001) degraded = (Inr 1, all_down)"
    using cleanupExpired_tiers [OF k', of "t0 + 86400001"]
    by (simp add: degraded_eq all_down_def memory_expired_def degraded_record_def memory_record_def)
  from k a b show ?thesis by blast
qed

text \<open>
  Claim C6 as stated fails: SQLite answers, PostgreSQL holds a row that expired a day
  ago, and the cleanup returns 0 and leaves that row where it is.
\<close>

theorem cleanupExpired_skips_secondary:
  "pg (secondary_holds [expired_row]) = Some [expired_row]
   \<and> expires_at expired_row = Some (t0 - 86400000)
   \<and> sqliteQuery_delete_expired t0 (secondary_holds [expired_row]) = Inr (0, secondary_holds [expired_row])
   \<and> cleanupExpired t0 (secondary_holds [expired_row]) = (Inr 0, secondary_holds [expired_row])"
  by (simp add: cleanupExpired_def cleanupExpired_databases_def sqliteQuery_delete_expired_def
        delete_where_def secondary_holds_def all_down_def expired_row_def database_row_def)

subsection \<open>Generation in degraded mode\<close>

lemma setCache_frame:
  "sqlite (snd (setCache now key v ttl s)) = sqlite s"
  "pg (snd (setCache now key v ttl s)) = pg s"
  "memoryStore (snd (setCache now key v ttl s)) = memoryStore s"
  "env_QR_CODE_EXPIRY_HOURS (snd (setCache now key v ttl s)) = env_QR_CODE_EXPIRY_HOURS s"
  "env_NODE_ENV (snd (setCache now key v ttl s)) = env_NODE_ENV s"
  by (auto simp: setCache_def split: option.splits sum.splits)

text \<open>
  Claim C7. When both inserts of \<open>generateQR\<close> raise, the record is put into the memory
  store and is there when the call ends, in either mode. With \<open>NODE_ENV\<close> set to
  \<open>production\<close> the store step raises \<open>Database_storage_failed\<close> and the call fails
  with \<open>Failed_to_generate_QR_code\<close>; in any other mode the call succeeds and returns
  the view of the record it stored.
\<close>

theorem generateQR_memory_fallback:
  assumes expiry: "expiresAt = now + expiryHours_of_env (env_QR_CODE_EXPIRY_HOURS s) * 60 * 60 * 1000"
    and primary: "\<exists>e. sqliteQuery_insert (database_row now uuid dat url expiresAt options) s = Inl e"
    and secondary: "\<exists>e. pgQuery_insert (database_row now uuid dat url expiresAt options) s = Inl e"
  shows "fst (generateQR now uuid (Inr url) dat options s) =
           (if env_NODE_ENV s = Some ''production'' then Inl Failed_to_generate_QR_code
            else Inr (public_view (memory_record now uuid dat url expiresAt)))
       \<and> fst (generateQR_store (memory_record now uuid dat url expiresAt)
                 (database_row now uuid dat url expiresAt options) s) =
           (if env_NODE_ENV s = Some ''production'' then Inl Database_storage_failed
            else Inr (memory_record now uuid dat url expiresAt))
       \<and> map_of (memoryStore (snd (generateQR now uuid (Inr url) dat options s))) uuid =
           Some (memory_record now uuid dat url expiresAt)"
proof -
  let ?m = "memory_record now uuid dat url expiresAt"
  let ?r = "database_row now uuid dat url expiresAt options"
  have k: "qr_id ?m = uuid" by (simp add: memory_record_def)
  from primary secondary
  have st: "generateQR_store ?m ?r s =
      (if env_NODE_ENV s = Some ''production'' then Inl Database_storage_failed else Inr ?m,
       s\<lparr>memoryStore := AList.update uuid ?m (memoryStore s)\<rparr>)"
    by (auto simp: generateQR_store_def Let_def k)
  have g: "generateQR now uuid (Inr url) dat options s =
      (case generateQR_store ?m ?r s of
         (Inl error, s1) \<Rightarrow> (Inl Failed_to_generate_QR_code, s1)
       | (Inr qrRecord, s1) \<Rightarrow>
           (Inr (public_view qrRecord),
            snd (setCache now (''qr:'' @ uuid) qrRecord
                   (expiryHours_of_env (env_QR_CODE_EXPIRY_HOURS s) * 3600) s1)))"
    by (simp add: generateQR_def Let_def expiry)
  show ?thesis
    by (simp add: g st setCache_frame AList.update_conv')
qed

text \<open>
  The theorem at work, with both databases unreachable: in production the call fails and
  the record is in the memory store all the same; outside production it succeeds.
\<close>

theorem generateQR_memory_fallback_witness:
  "fst (generateQR t0 ''a'' (Inr ''data:image/png;base64,AA'') ''https://x.test''
          \<lparr>opt_userId = Some ''alice'', opt_metadata = None\<rparr>
          (all_down\<lparr>env_NODE_ENV := Some ''production''\<rparr>)) = Inl Failed_to_generate_QR_code
   \<and> map_of (memoryStore (snd (generateQR t0 ''a'' (Inr ''data:image/png;base64,AA'') ''https://x.test''
          \<lparr>opt_userId = Some ''alice'', opt_metadata = None\<rparr>
          (all_down\<lparr>env_NODE_ENV := Some ''production''\<rparr>)))) ''a'' = Some degraded_record
   \<and> fst (generateQR t0 ''a'' (Inr ''data:image/png;base64,AA'') ''https://x.test''
          \<lparr>opt_userId = Some ''alice'', opt_metadata = None\<rparr> all_down)
       = Inr (public_view degraded_record)"
proof -
  let ?o = "\<lparr>opt_userId = Some ''alice'', opt_metadata = None\<rparr>"
  let ?p = "all_down\<lparr>env_NODE_ENV := Some ''production''\<rparr>"
  have e: "t0 + 86400000 = t0 + expiryHours_of_env (env_QR_CODE_EXPIRY_HOURS ?p) * 60 * 60 * 1000"
          "t0 + 86400000 = t0 + expiryHours_of_env (env_QR_CODE_EXPIRY_HOURS all_down) * 60 * 60 * 1000"
    by (simp_all add: all_down_def expiryHours_of_env_def)
  have i: "\<exists>e. sqliteQuery_insert (database_row t0 ''a'' ''https://x.test'' ''data:image/png;base64,AA''
                   (t0 + 86400000) ?o) ?p = Inl e"
          "\<exists>e. pgQuery_insert (database_row t0 ''a'' ''https://x.test'' ''data:image/png;base64,AA''
                   (t0 + 86400000) ?o) ?p = Inl e"
          "\<exists>e. sqliteQuery_insert (database_row t0 ''a'' ''https://x.test'' ''data:image/png;base64,AA''
                   (t0 + 86400000) ?o) all_down = Inl e"
          "\<exists>e. pgQuery_insert (database_row t0 ''a'' ''https://x.test'' ''data:image/png;base64,AA''
                   (t0 + 86400000) ?o) all_down = Inl e"
    by (simp_all add: sqliteQuery_insert_def pgQuery_insert_def all_down_def)
  from generateQR_memory_fallback [OF e(1) i(1) i(2)] generateQR_memory_fallback [OF e(2) i(3) i(4)]
  show ?thesis
    by (simp add: degraded_record_def all_down_def)
qed


subsection \<open>Statistics\<close>

lemma show_digits_0: "show_digits 0 = ''0''"
  by (simp add: show_digits.simps digit_char_def)

lemma memory_stats_loop_eq:
  "memory_stats_loop now u es (t, a, c) =
     (t + length (filter (\<lambda>p. \<not> (truthy u \<and> user_id (snd p) \<noteq> u)) es),
      a + length (filter (\<lambda>p. case expires_at (snd p) of None \<Rightarrow> True | Some e \<Rightarrow> now < e)
                    (filter (\<lambda>p. \<not> (truthy u \<and> user_id (snd p) \<noteq> u)) es)),
      c + sum_list (map (\<lambda>p. access_count (snd p))
                    (filter (\<lambda>p. \<not> (truthy u \<and> user_id (snd p) \<noteq> u)) es)))"
proof (induction es arbitrary: t a c)
  case Nil
  then show ?case by simp
next
  case (Cons e es)
  obtain i r where e: "e = (i, r)" by (cases e)
  show ?case
    unfolding e by (simp add: Cons.IH)
qed

lemma getStats_degraded:
  "sqlite s = None \<Longrightarrow> pg s = None \<Longrightarrow> getStats now u s = Inr (getStats_memory now u s)"
  by (simp add: getStats_def getStats_try_def getStats_sqlite_def getStats_pg_def
        sqliteQuery_stats_def pgQuery_stats_def)

text \<open>
  Claim C8. \<open>getStats\<close> always returns a result with its six fields, never an error.
  With both databases unreachable the result is computed from the memory store: the
  records are filtered by owner when a \<open>userId\<close> is given, the active ones are those
  whose \<open>expires_at\<close> is unset or later than now, the access counts are summed, and the
  three scan fields are zero. With an empty memory store every field is zero.
\<close>

theorem getStats_never_raises:
  "(\<exists>st. getStats now u s = Inr st)
   \<and> (sqlite s = None \<and> pg s = None \<longrightarrow>
        getStats now u s =
          Inr \<lparr>total_codes =
                 show_digits (int (length (filter (\<lambda>p. \<not> (truthy u \<and> user_id (snd p) \<noteq> u)) (memoryStore s)))),
               active_codes =
                 show_digits (int (length
                   (filter (\<lambda>p. case expires_at (snd p) of None \<Rightarrow> True | Some e \<Rightarrow> now < e)
                      (filter (\<lambda>p. \<not> (truthy u \<and> user_id (snd p) \<noteq> u)) (memoryStore s))))),
               total_accesses =
                 show_digits (int (sum_list (map (\<lambda>p. access_count (snd p))
                      (filter (\<lambda>p. \<not> (truthy u \<and> user_id (snd p) \<noteq> u)) (memoryStore s))))),
               total_scans = ''0'', unique_scanners = ''0'', scanned_codes = ''0''\<rparr>)
   \<and> (sqlite s = None \<and> pg s = None \<and> memoryStore s = [] \<longrightarrow> getStats now u s = Inr zero_stats)"
proof -
  have r: "\<exists>st. getStats now u s = Inr st"
    by (auto simp: getStats_def split: sum.splits)
  have m: "getStats_memory now u s =
          \<lparr>total_codes =
                 show_digits (int (length (filter (\<lambda>p. \<not> (truthy u \<and> user_id (snd p) \<noteq> u)) (memoryStore s)))),
               active_codes =
                 show_digits (int (length
                   (filter (\<lambda>p. case expires_at (snd p) of None \<Rightarrow> True | Some e \<Rightarrow> now < e)
                      (filter (\<lambda>p. \<not> (truthy u \<and> user_id (snd p) \<noteq> u)) (memoryStore s))))),
               total_accesses =
                 show_digits (int (sum_list (map (\<lambda>p. access_count (snd p))
                      (filter (\<lambda>p. \<not> (truthy u \<and> user_id (snd p) \<noteq> u)) (memoryStore s))))),
               total_scans = ''0'', unique_scanners = ''0'', scanned_codes = ''0''\<rparr>"
    by (simp add: getStats_memory_def memory_stats_loop_eq)
  have z: "memoryStore s = [] \<Longrightarrow> getStats_memory now u s = zero_stats"
    by (simp add: getStats_memory_def zero_stats_def show_digits_0)
  from r m z show ?thesis
    by (auto simp: getStats_degraded)
qed

text \<open>
  The theorem at work: all zero when nothing is reachable and nothing is stored; one
  code, active, when the memory store holds the record; and zero for the owner
  \<open>alice\<close>, since the record in the memory store carries no \<open>user_id\<close>.
\<close>

theorem getStats_never_raises_witness:
  "getStats t0 (Some ''alice'') all_down = Inr zero_stats
   \<and> getStats t0 None degraded =
       Inr \<lparr>total_codes = ''1'', active_codes = ''1'', total_accesses = ''0'',
            total_scans = ''0'', unique_scanners = ''0'', scanned_codes = ''0''\<rparr>
   \<and> getStats t0 (Some ''alice'') degraded = Inr zero_stats"
proof -
  have a: "sqlite all_down = None \<and> pg all_down = None \<and> memoryStore all_down = []"
    by (simp add: all_down_def)
  have d: "sqlite degraded = None \<and> pg degraded = None
           \<and> memoryStore degraded = [(''a'', degraded_record)]
           \<and> user_id degraded_record = None
           \<and> expires_at degraded_record = Some (t0 + 86400000)
           \<and> access_count degraded_record = 0"
    by (simp add: degraded_eq all_down_def degraded_record_def memory_record_def)
  have s1: "show_digits 1 = ''1''"
    by (simp add: show_digits.simps digit_char_def)
  from getStats_never_raises [of t0 "Some ''alice''" all_down] a
  have 1: "getStats t0 (Some ''alice'') all_down = Inr zero_stats"
    by blast
  from getStats_never_raises [of t0 None degraded] d
  have 2: "getStats t0 None degraded =
       Inr \<lparr>total_codes = ''1'', active_codes = ''1'', total_accesses = ''0'',
            total_scans = ''0'', unique_scanners = ''0'', scanned_codes = ''0''\<rparr>"
    by (simp add: truthy_def show_digits_0 s1)
  from getStats_never_raises [of t0 "Some ''alice''" degraded] d
  have 3: "getStats t0 (Some ''alice'') degraded = Inr zero_stats"
    by (simp add: truthy_def show_digits_0 zero_stats_def)
  from 1 2 3 show ?thesis by blast
qed


subsection \<open>The expiry override of the generate handler\<close>

lemma digit_char_dec: "digit_char k \<in> set ''0123456789''"
proof -
  have "nat (k mod 10) < 10" by simp
  then have "''0123456789'' ! nat (k mod 10) \<in> set ''0123456789''"
    by (intro nth_mem) simp
  then show ?thesis by (simp only: digit_char_def)
qed

lemma digit_of_digit_char: "digit_of 10 (digit_char k) = Some (k mod 10)"
proof -
  have "0 \<le> k mod 10" "k mod 10 < 10" by simp_all
  then have "k mod 10 = 0 \<or> k mod 10 = 1 \<or> k mod 10 = 2 \<or> k mod 10 = 3 \<or> k mod 10 = 4
    \<or> k mod 10 = 5 \<or> k mod 10 = 6 \<or> k mod 10 = 7 \<or> k mod 10 = 8 \<or> k mod 10 = 9"
    by arith
  then consider "k mod 10 = 0" | "k mod 10 = 1" | "k mod 10 = 2" | "k mod 10 = 3" | "k mod 10 = 4"
    | "k mod 10 = 5" | "k mod 10 = 6" | "k mod 10 = 7" | "k mod 10 = 8" | "k mod 10 = 9"
    by blast
  then show ?thesis
    by cases (simp_all add: digit_char_def digit_of_def)
qed

lemma dec_char_facts:
  assumes "c \<in> set ''0123456789''"
  shows "digit_of 10 c \<noteq> None" "\<not> is_whitespace c" "c \<noteq> CHR ''-''" "c \<noteq> CHR ''+''"
    "c \<noteq> CHR ''x''" "c \<noteq> CHR ''X''"
  using assms by (auto simp: digit_of_def is_whitespace_def)

lemma show_digits_dec: "set (show_digits n) \<subseteq> set ''0123456789''"
proof (induction n rule: show_digits.induct)
  case (1 n)
  show ?case
  proof (cases "n < 10")
    case True
    then have "show_digits n = [digit_char n]" by (simp add: show_digits.simps)
    with digit_char_dec [of n] show ?thesis by simp
  next
    case False
    then have "show_digits n = show_digits (n div 10) @ [digit_char n]"
      by (simp add: show_digits.simps)
    with "1.IH" False digit_char_dec [of n] show ?thesis by simp
  qed
qed

lemma show_digits_nonempty: "show_digits n \<noteq> []"
  by (subst show_digits.simps) simp

lemma parse_digits_append:
  "\<forall>c\<in>set xs. digit_of r c \<noteq> None \<Longrightarrow>
     parse_digits r (xs @ ys) acc = parse_digits r ys (parse_digits r xs acc)"
  by (induction xs arbitrary: acc) auto

lemma parse_show_digits: "0 \<le> n \<Longrightarrow> parse_digits 10 (show_digits n) None = Some n"
proof (induction n rule: show_digits.induct)
  case (1 n)
  show ?case
  proof (cases "n < 10")
    case True
    then have "show_digits n = [digit_char n]" by (simp add: show_digits.simps)
    with True "1.prems" show ?thesis by (simp add: digit_of_digit_char)
  next
    case False
    then have s: "show_digits n = show_digits (n div 10) @ [digit_char n]"
      by (simp add: show_digits.simps)
    from False "1.prems" have ih: "parse_digits 10 (show_digits (n div 10)) None = Some (n div 10)"
      by (intro "1.IH") simp_all
    have d: "\<forall>c\<in>set (show_digits (n div 10)). digit_of 10 c \<noteq> None"
      using show_digits_dec [of "n div 10"] dec_char_facts(1) by blast
    show ?thesis
      unfolding s by (simp add: parse_digits_append [OF d] ih digit_of_digit_char)
  qed
qed

lemma parseInt_js_toString: "parseInt (js_toString h) = Some (int (whole h))"
proof -
  let ?ds = "show_digits (int (whole h))"
  let ?rest = "if frac h = [] then [] else ''.'' @ frac h"
  obtain c cs where ds: "?ds = c # cs"
    using show_digits_nonempty [of "int (whole h)"] by (cases ?ds) auto
  have dec: "\<forall>x\<in>set ?ds. x \<in> set ''0123456789''"
    using show_digits_dec [of "int (whole h)"] by blast
  have c: "c \<in> set ''0123456789''"
    using dec ds by simp
  have second: "take 1 (cs @ ?rest) \<noteq> ''x'' \<and> take 1 (cs @ ?rest) \<noteq> ''X''"
  proof (cases cs)
    case Nil
    then show ?thesis by simp
  next
    case (Cons c2 cs2)
    with dec ds have "c2 \<in> set ''0123456789''" by simp
    with Cons show ?thesis using dec_char_facts(5,6) [of c2] by simp
  qed
  have d: "\<forall>x\<in>set ?ds. digit_of 10 x \<noteq> None"
    using dec dec_char_facts(1) by blast
  have tail: "parse_digits 10 ?rest (Some (int (whole h))) = Some (int (whole h))"
    by (simp add: digit_of_def)
  have p: "parse_digits 10 (?ds @ ?rest) None = Some (int (whole h))"
    by (simp only: parse_digits_append [OF d] parse_show_digits [of "int (whole h)", simplified] tail)
  have str: "js_toString h = c # (cs @ ?rest)"
    by (simp add: js_toString_def ds)
  have nothex: "\<not> (take 2 (c # (cs @ ?rest)) = ''0x'' \<or> take 2 (c # (cs @ ?rest)) = ''0X'')"
    using second by (simp add: numeral_2_eq_2)
  have p': "parse_digits 10 (c # (cs @ ?rest)) None = Some (int (whole h))"
    using p by (simp only: ds append_Cons)
  have dw: "dropWhile is_whitespace (c # (cs @ ?rest)) = c # (cs @ ?rest)"
    using dec_char_facts(2) [OF c] by simp
  have t1: "take 1 (c # (cs @ ?rest)) = [c]"
    by simp
  have sign: "[c] \<noteq> ''-''" "[c] \<noteq> ''+''"
    using dec_char_facts(3,4) [OF c] by simp_all
  show ?thesis
    unfolding str parseInt_def Let_def dw t1
    by (simp only: sign nothex p' if_False simp_thms option.simps)
qed

lemma expiryHours_of_override:
  "1 \<le> whole h \<Longrightarrow> expiryHours_of_env (Some (js_toString h)) = int (whole h)"
  by (simp add: expiryHours_of_env_def parseInt_js_toString)


lemma generateQR_store_env:
  "env_QR_CODE_EXPIRY_HOURS (snd (generateQR_store m r s)) = env_QR_CODE_EXPIRY_HOURS s"
  by (auto simp: generateQR_store_def sqliteQuery_insert_def pgQuery_insert_def Let_def
        split: option.splits sum.splits)

lemma generateQR_env:
  "env_QR_CODE_EXPIRY_HOURS (snd (generateQR now uuid rendered dat options s)) =
     env_QR_CODE_EXPIRY_HOURS s"
proof (cases rendered)
  case (Inl e)
  then show ?thesis by (simp add: generateQR_def)
next
  case (Inr url)
  let ?x = "now + expiryHours_of_env (env_QR_CODE_EXPIRY_HOURS s) * 60 * 60 * 1000"
  obtain res s1 where st:
    "generateQR_store (memory_record now uuid dat url ?x) (database_row now uuid dat url ?x options) s
       = (res, s1)"
    by (cases "generateQR_store (memory_record now uuid dat url ?x)
                 (database_row now uuid dat url ?x options) s")
  from generateQR_store_env [of "memory_record now uuid dat url ?x"
                                "database_row now uuid dat url ?x options" s] st
  have "env_QR_CODE_EXPIRY_HOURS s1 = env_QR_CODE_EXPIRY_HOURS s" by simp
  with Inr st show ?thesis
    by (cases res) (simp_all add: generateQR_def Let_def setCache_frame)
qed

lemma generateQR_store_expires:
  "expires_at m = Some x \<Longrightarrow> expires_at r = Some x \<Longrightarrow>
     fst (generateQR_store m r s) = Inr q \<Longrightarrow> expires_at q = Some x"
  by (auto simp: generateQR_store_def Let_def split: sum.splits if_splits)

lemma generateQR_expiresAt:
  assumes "fst (generateQR now uuid rendered dat options s) = Inr pub"
  shows "pub_expiresAt pub =
           Some (now + expiryHours_of_env (env_QR_CODE_EXPIRY_HOURS s) * 60 * 60 * 1000)"
proof (cases rendered)
  case (Inl e)
  with assms show ?thesis by (simp add: generateQR_def)
next
  case (Inr url)
  let ?x = "now + expiryHours_of_env (env_QR_CODE_EXPIRY_HOURS s) * 60 * 60 * 1000"
  let ?m = "memory_record now uuid dat url ?x"
  let ?r = "database_row now uuid dat url ?x options"
  obtain res s1 where st: "generateQR_store ?m ?r s = (res, s1)"
    by (cases "generateQR_store ?m ?r s")
  show ?thesis
  proof (cases res)
    case (Inl e)
    with Inr st assms show ?thesis by (simp add: generateQR_def Let_def)
  next
    case (Inr q)
    have "expires_at ?m = Some ?x" "expires_at ?r = Some ?x"
      by (simp_all add: memory_record_def database_row_def)
    moreover from st Inr have "fst (generateQR_store ?m ?r s) = Inr q" by simp
    ultimately have "expires_at q = Some ?x" by (rule generateQR_store_expires)
    moreover from \<open>rendered = Inr url\<close> st Inr assms have "pub = public_view q"
      by (simp add: generateQR_def Let_def)
    ultimately show ?thesis by (simp add: public_view_def)
  qed
qed

lemma post_generate_valid:
  "generateSchema_valid body \<Longrightarrow>
     \<exists>dat. body_data body = Some dat
       \<and> post_generate now uuid rendered body s =
           generateQR now uuid rendered dat
             \<lparr>opt_userId = body_userId body, opt_metadata = body_metadata body\<rparr>
             (override_expiry (body_expiryHours body) s)"
  by (cases "body_data body") (simp_all add: post_generate_def generateSchema_valid_def)

text \<open>
  Claim C10. A valid generate request that carries \<open>expiryHours\<close> overwrites the
  environment variable \<open>QR_CODE_EXPIRY_HOURS\<close> with the text of that number, whatever
  it held before. A later valid request without \<open>expiryHours\<close>, met in a state where
  the variable is still what the first request left, leaves it that way, and the record
  it generates expires the overriding number of whole hours after the instant of the
  later request.
\<close>

theorem expiry_override_persists:
  assumes first: "generateSchema_valid body1" "body_expiryHours body1 = Some h"
      and later: "generateSchema_valid body2" "body_expiryHours body2 = None"
      and same: "env_QR_CODE_EXPIRY_HOURS s' =
                   env_QR_CODE_EXPIRY_HOURS (snd (post_generate now1 uuid1 rendered1 body1 s))"
  shows "env_QR_CODE_EXPIRY_HOURS (snd (post_generate now1 uuid1 rendered1 body1 s))
           = Some (js_toString h)
       \<and> env_QR_CODE_EXPIRY_HOURS (snd (post_generate now2 uuid2 rendered2 body2 s'))
           = Some (js_toString h)
       \<and> (\<forall>pub. fst (post_generate now2 uuid2 rendered2 body2 s') = Inr pub \<longrightarrow>
             pub_expiresAt pub = Some (now2 + int (whole h) * 60 * 60 * 1000))"
proof -
  from first have w: "1 \<le> whole h"
    by (simp add: generateSchema_valid_def)
  then have t: "js_truthy h" by (simp add: js_truthy_def)
  from post_generate_valid [OF first(1), of now1 uuid1 rendered1 s] first(2) t
  have e1: "env_QR_CODE_EXPIRY_HOURS (snd (post_generate now1 uuid1 rendered1 body1 s))
              = Some (js_toString h)"
    by (auto simp: generateQR_env override_expiry_def)
  with same have e': "env_QR_CODE_EXPIRY_HOURS s' = Some (js_toString h)" by simp
  from post_generate_valid [OF later(1), of now2 uuid2 rendered2 s'] later(2)
  obtain dat where p2: "post_generate now2 uuid2 rendered2 body2 s' =
      generateQR now2 uuid2 rendered2 dat
        \<lparr>opt_userId = body_userId body2, opt_metadata = body_metadata body2\<rparr> s'"
    by (auto simp: override_expiry_def)
  have e2: "env_QR_CODE_EXPIRY_HOURS (snd (post_generate now2 uuid2 rendered2 body2 s'))
           = Some (js_toString h)"
    by (simp add: p2 generateQR_env e')
  have x: "pub_expiresAt pub = Some (now2 + int (whole h) * 60 * 60 * 1000)"
    if "fst (post_generate now2 uuid2 rendered2 body2 s') = Inr pub" for pub
    using generateQR_expiresAt [of now2 uuid2 rendered2 dat _ s' pub] that
    by (simp add: p2 e' expiryHours_of_override [OF w])
  from e1 e2 x show ?thesis by blast
qed

text \<open>
  The theorem at work: the process is configured with 24 hours, a first request asks
  for 48, and the record of a second request, which asks for nothing, expires 48 hours
  after that request.
\<close>

theorem expiry_override_persists_witness:
  "env_QR_CODE_EXPIRY_HOURS configured_one_day = Some ''24''
   \<and> env_QR_CODE_EXPIRY_HOURS
        (snd (post_generate t0 ''a'' (Inr ''data:image/png;base64,AA'') request_two_days
                configured_one_day)) = Some ''48''
   \<and> map_sum id pub_expiresAt
        (fst (post_generate (t0 + 1000) ''c'' (Inr ''data:image/png;base64,CC'') request_default
                (snd (post_generate t0 ''a'' (Inr ''data:image/png;base64,AA'') request_two_days
                        configured_one_day))))
       = Inr (Some (t0 + 1000 + 172800000))"
proof -
  let ?s1 = "snd (post_generate t0 ''a'' (Inr ''data:image/png;base64,AA'') request_two_days
                    configured_one_day)"
  have v1: "generateSchema_valid request_two_days"
    and x1: "body_expiryHours request_two_days = Some \<lparr>whole = 48, frac = []\<rparr>"
    and v2: "generateSchema_valid request_default"
    and x2: "body_expiryHours request_default = None"
    by (simp_all add: generateSchema_valid_def request_two_days_def request_default_def)
  have str: "js_toString \<lparr>whole = 48, frac = []\<rparr> = ''48''"
    by (simp add: js_toString_def show_digits.simps digit_char_def)
  have c: "env_QR_CODE_EXPIRY_HOURS configured_one_day = Some ''24''"
    by (simp add: configured_one_day_def)
  have p1: "post_generate t0 ''a'' (Inr ''data:image/png;base64,AA'') request_two_days
              configured_one_day =
            generateQR t0 ''a'' (Inr ''data:image/png;base64,AA'') ''https://x.test''
              \<lparr>opt_userId = Some ''alice'', opt_metadata = None\<rparr>
              (configured_one_day\<lparr>env_QR_CODE_EXPIRY_HOURS := Some ''48''\<rparr>)"
    unfolding post_generate_def using v1
    by (simp add: request_two_days_def override_expiry_def js_truthy_def str)
  have down: "sqlite ?s1 = None \<and> pg ?s1 = None \<and> env_NODE_ENV ?s1 = None"
    unfolding p1
    by (simp add: generateQR_def Let_def generateQR_store_def sqliteQuery_insert_def
          pgQuery_insert_def configured_one_day_def all_down_def setCache_def)
  have p2: "post_generate (t0 + 1000) ''c'' (Inr ''data:image/png;base64,CC'') request_default ?s1 =
            generateQR (t0 + 1000) ''c'' (Inr ''data:image/png;base64,CC'') ''https://y.test''
              \<lparr>opt_userId = Some ''bob'', opt_metadata = None\<rparr> ?s1"
    unfolding post_generate_def using v2
    by (simp add: request_default_def override_expiry_def)
  have ok: "\<exists>pub. fst (post_generate (t0 + 1000) ''c'' (Inr ''data:image/png;base64,CC'')
                   request_default ?s1) = Inr pub"
    unfolding p2 using down
    by (simp add: generateQR_def Let_def generateQR_store_def sqliteQuery_insert_def
          pgQuery_insert_def)
  from expiry_override_persists [OF v1 x1 v2 x2 refl, of t0 "''a''" "Inr ''data:image/png;base64,AA''"
         configured_one_day "t0 + 1000" "''c''" "Inr ''data:image/png;base64,CC''"] ok c
  show ?thesis
    by (auto simp: str)
qed

subsection \<open>The keys of the memory store\<close>

text \<open>
  The memory store is a \<open>Map\<close>, so its keys are unique. The model keeps them so: the
  operations that write to the store preserve the uniqueness that the cleanup relies on.
\<close>

lemma memoryStore_keys_generateQR:
  assumes "distinct (map fst (memoryStore s))"
  shows "distinct (map fst (memoryStore (snd (generateQR now uuid rendered dat options s))))"
proof -
  have st: "distinct (map fst (memoryStore (snd (generateQR_store m r s))))" for m r
    using assms
    by (auto simp: generateQR_store_def sqliteQuery_insert_def pgQuery_insert_def Let_def
          AList.distinct_update split: option.splits sum.splits)
  show ?thesis
  proof (cases rendered)
    case (Inl e)
    with assms show ?thesis by (simp add: generateQR_def)
  next
    case (Inr url)
    let ?x = "now + expiryHours_of_env (env_QR_CODE_EXPIRY_HOURS s) * 60 * 60 * 1000"
    obtain res s1 where g: "generateQR_store (memory_record now uuid dat url ?x)
                              (database_row now uuid dat url ?x options) s = (res, s1)"
      by (cases "generateQR_store (memory_record now uuid dat url ?x)
                   (database_row now uuid dat url ?x options) s")
    with st [of "memory_record now uuid dat url ?x" "database_row now uuid dat url ?x options"]
    have "distinct (map fst (memoryStore s1))" by simp
    with Inr g show ?thesis
      by (cases res) (simp_all add: generateQR_def Let_def setCache_frame)
  qed
qed

lemma memoryStore_keys_deleteQR:
  "distinct (map fst (memoryStore s)) \<Longrightarrow> distinct (map fst (memoryStore (snd (deleteQR i u s))))"
  by (simp add: deleteQR_snd_memory AList.distinct_delete)

lemma memoryStore_keys_incrementAccessCount:
  "distinct (map fst (memoryStore s)) \<Longrightarrow>
     distinct (map fst (memoryStore (snd (incrementAccessCount i s))))"
  by (auto simp: incrementAccessCount_def sqliteQuery_increment_def pgQuery_increment_def
        memory_increment_def AList.distinct_update split: option.splits sum.splits)


end
